theory Spec2Isabelle
  imports Complex_Main
begin

section \<open>Data model\<close>

text \<open>
  The graphs of the AEGUD experiments are tensor programs over floats. Tensors are
  modelled as (nested) lists and floats as reals, so every statement below is about the
  formulas of the code in exact arithmetic. Where a float operation has no real value
  (a division by zero gives \<open>inf\<close> or \<open>nan\<close>, which then poisons the tensor) the model
  returns \<open>NonFinite\<close>; where Python raises, the model returns the exception.
\<close>

datatype error = ZeroDivisionError | IndexError | RuntimeError | ValueError | NonFinite

text \<open>Sequencing of computations that may raise.\<close>

definition err_bind :: "error + 'a \<Rightarrow> ('a \<Rightarrow> error + 'b) \<Rightarrow> error + 'b" where
  "err_bind m f = (case m of Inl e \<Rightarrow> Inl e | Inr x \<Rightarrow> f x)"

type_synonym tokens = "nat list list"

text \<open>A tensor that is broadcast against a \<open>(batch, seq_len)\<close> tensor is read through
  its broadcast view: a function of the batch index and the position.\<close>

type_synonym broadcast = "nat \<Rightarrow> nat \<Rightarrow> real"

definition tabulate2 :: "'a list list \<Rightarrow> (nat \<Rightarrow> nat \<Rightarrow> 'a \<Rightarrow> 'b) \<Rightarrow> 'b list list" where
  "tabulate2 x f = map (\<lambda>b. map (\<lambda>l. f b l (x ! b ! l)) [0..<length (x ! b)]) [0..<length x]"

definition in_vocab :: "nat \<Rightarrow> tokens \<Rightarrow> bool" where
  "in_vocab V x = (\<forall>row \<in> set x. \<forall>tok \<in> set row. tok < V)"

section \<open>The graph objects\<close>

text \<open>\<open>AdaptiveTransitionMatrix\<close>: the learned parameters. The embedding table is read
  as a function of the token and the coordinate.\<close>

record atm =
  vocab_size :: nat
  hidden_dim :: nat
  token_embeddings :: "nat \<Rightarrow> nat \<Rightarrow> real"
  temperature :: real
  self_transition_bias :: real

text \<open>\<open>AdaptiveUniform\<close>. The entropy estimator is a transformer encoder followed by a
  sigmoid head; it is kept as a black box from a token batch to its per-position scores
  (\<open>forward(x_t, return_all=True)\<close>).\<close>

record adaptive_uniform =
  dim :: nat
  entropy_scale :: real
  sparsity_k :: "nat option"
  entropy_estimator :: "tokens \<Rightarrow> real list list"
  transition_matrix :: atm
  rate_scale :: real
  rate_bias :: real

section \<open>AdaptiveUniform: the uniform transition and the forward sampling path\<close>

text \<open>\<open>AdaptiveUniform.transition\<close>, one position: a row filled with
  \<open>(1 - exp(-sigma)) / dim\<close>, the entry of the current token scattered to zero and then
  to one minus the sum of the row.\<close>

definition transition_row :: "nat \<Rightarrow> nat \<Rightarrow> real \<Rightarrow> real list" where
  "transition_row V tok sigma =
     (let trans = replicate V (1 * (1 - exp (- sigma)) / real V);
          trans = trans[tok := 0]
      in trans[tok := 1 - sum_list trans])"

text \<open>\<open>scatter\<close> raises on an index outside the last dimension.\<close>

definition transition :: "adaptive_uniform \<Rightarrow> tokens \<Rightarrow> broadcast \<Rightarrow> error + real list list list" where
  "transition g i sigma =
     (if \<not> in_vocab (dim g) i then Inl RuntimeError
      else Inr (tabulate2 i (\<lambda>b l tok. transition_row (dim g) tok (sigma b l))))"

text \<open>\<open>AdaptiveUniform.sample_transition\<close>. The two random tensors are arguments:
  \<open>u\<close> is the draw of \<open>torch.rand\<close> (uniform on \<open>[0, 1)\<close>) and \<open>r\<close> the draw of
  \<open>torch.randint_like(i, dim)\<close> (uniform on \<open>[0, dim)\<close>), one value per position.
  \<open>randint_like\<close> raises when its upper bound is not positive.\<close>

definition move_chance :: "real \<Rightarrow> real" where
  "move_chance sigma = 1 - exp (- sigma)"

definition sample_transition ::
  "adaptive_uniform \<Rightarrow> tokens \<Rightarrow> broadcast \<Rightarrow> broadcast \<Rightarrow> (nat \<Rightarrow> nat \<Rightarrow> nat) \<Rightarrow> error + tokens" where
  "sample_transition g i sigma u r =
     (if dim g = 0 then Inl RuntimeError
      else Inr (tabulate2 i (\<lambda>b l tok.
             let move_indices = (u b l < move_chance (sigma b l))
             in if move_indices then r b l else tok)))"

section \<open>Enhanced graphs: the adaptive weight\<close>

text \<open>The time argument is a Python number or a tensor holding one value. Only a Python
  number is divided by \<open>max_t\<close>; a tensor is taken as already normalized and read with
  \<open>.item()\<close>.\<close>

datatype pytime = PyNum real | PyTensor real

text \<open>Division of Python floats raises on a zero divisor.\<close>

definition py_div :: "real \<Rightarrow> real \<Rightarrow> error + real" where
  "py_div a b = (if b = 0 then Inl ZeroDivisionError else Inr (a / b))"

definition normalize_t :: "pytime \<Rightarrow> real \<Rightarrow> error + real" where
  "normalize_t t max_t = (case t of PyNum x \<Rightarrow> py_div x max_t | PyTensor x \<Rightarrow> Inr x)"

text \<open>The enhancement flags shared by \<open>EnhancedAdaptiveUniform\<close> and
  \<open>EnhancedAdaptiveUniformV2\<close>.\<close>

record enhanced_cfg =
  use_asymptotic_guarantee :: bool
  use_two_stage :: bool
  stage_transition_point :: real
  use_controlled_decay :: bool
  decay_tau :: real

text \<open>\<open>EnhancedAdaptiveUniform.get_adaptive_weight\<close>.\<close>

definition get_adaptive_weight :: "'a enhanced_cfg_scheme \<Rightarrow> pytime \<Rightarrow> real \<Rightarrow> error + real" where
  "get_adaptive_weight c t max_t =
     (if \<not> use_asymptotic_guarantee c \<and> \<not> use_controlled_decay c then Inr 1
      else err_bind (normalize_t t max_t) (\<lambda>normalized_t.
        if use_two_stage c then
          (if normalized_t < stage_transition_point c then
             (if use_controlled_decay c then
                err_bind (py_div (- normalized_t) (decay_tau c * stage_transition_point c))
                  (\<lambda>q. Inr (exp q))
              else Inr 1)
           else Inr 0)
        else if use_asymptotic_guarantee c then
          (let uniform_weight = normalized_t ^ 2;
               adaptive_weight = 1 - uniform_weight
           in if use_controlled_decay c then
                err_bind (py_div (- normalized_t) (decay_tau c))
                  (\<lambda>q. Inr (adaptive_weight * exp q))
              else Inr adaptive_weight)
        else if use_controlled_decay c then
          err_bind (py_div (- normalized_t) (decay_tau c)) (\<lambda>q. Inr (exp q))
        else Inr 1))"

text \<open>The V2 graph adds the learned schedule. \<open>schedule_logit\<close> is the feed-forward stack
  of \<open>LearnableConvergenceSchedule.schedule_net\<close> before its final sigmoid, a black box
  from the normalized time to a real; \<open>transition_point\<close> is the learned parameter.\<close>

record enhanced_cfg_v2 = enhanced_cfg +
  use_learnable_schedule :: bool
  schedule_logit :: "real \<Rightarrow> real"
  transition_point :: real

definition sigmoid :: "real \<Rightarrow> real" where
  "sigmoid x = 1 / (1 + exp (- x))"

text \<open>\<open>LearnableConvergenceSchedule.forward\<close>.\<close>

definition learnable_schedule_forward :: "'a enhanced_cfg_v2_scheme \<Rightarrow> pytime \<Rightarrow> real \<Rightarrow> error + real" where
  "learnable_schedule_forward c t max_t =
     err_bind (normalize_t t max_t) (\<lambda>normalized_t.
       let schedule_value = sigmoid (schedule_logit c normalized_t);
           transition_smoothness = 0.1;
           transition_factor =
             sigmoid ((transition_point c - normalized_t) / transition_smoothness);
           adaptive_weight = schedule_value * transition_factor
       in Inr adaptive_weight)"

text \<open>\<open>EnhancedAdaptiveUniformV2.get_adaptive_weight\<close>.\<close>

definition get_adaptive_weight_v2 :: "'a enhanced_cfg_v2_scheme \<Rightarrow> pytime \<Rightarrow> real \<Rightarrow> error + real" where
  "get_adaptive_weight_v2 c t max_t =
     (if use_learnable_schedule c then learnable_schedule_forward c t max_t
      else if \<not> use_asymptotic_guarantee c \<and> \<not> use_controlled_decay c then Inr 1
      else err_bind (normalize_t t max_t) (\<lambda>normalized_t.
        if use_two_stage c then
          (if normalized_t < stage_transition_point c then
             (if use_controlled_decay c then
                err_bind (py_div (- normalized_t) (decay_tau c * stage_transition_point c))
                  (\<lambda>decay_factor. Inr (exp decay_factor))
              else Inr 1)
           else Inr 0)
        else if use_asymptotic_guarantee c then
          (let uniform_weight = normalized_t ^ 2;
               adaptive_weight = 1 - uniform_weight
           in if use_controlled_decay c then
                err_bind (py_div (- normalized_t) (decay_tau c))
                  (\<lambda>q. Inr (adaptive_weight * exp q))
              else Inr adaptive_weight)
        else if use_controlled_decay c then
          err_bind (py_div (- normalized_t) (decay_tau c)) (\<lambda>q. Inr (exp q))
        else Inr 1))"

text \<open>The policies as the specification words them: each enabled policy contributes one
  factor and the weight is their product. Two-stage is full adaptive behaviour before the
  transition point and a hard drop after it, the asymptotic guarantee is \<open>1 - t\<^sup>2\<close>, and
  controlled decay is \<open>exp(-t / tau)\<close>.\<close>

definition two_stage_factor :: "'a enhanced_cfg_scheme \<Rightarrow> real \<Rightarrow> real" where
  "two_stage_factor c n = (if n < stage_transition_point c then 1 else 0)"

definition asymptotic_factor :: "real \<Rightarrow> real" where
  "asymptotic_factor n = 1 - n ^ 2"

definition decay_factor :: "'a enhanced_cfg_scheme \<Rightarrow> real \<Rightarrow> real" where
  "decay_factor c n = exp (- n / decay_tau c)"

definition spec_product_weight :: "'a enhanced_cfg_scheme \<Rightarrow> real \<Rightarrow> real" where
  "spec_product_weight c n =
     (if use_two_stage c then two_stage_factor c n else 1) *
     (if use_asymptotic_guarantee c then asymptotic_factor n else 1) *
     (if use_controlled_decay c then decay_factor c n else 1)"


section \<open>Convergence verdicts of the diagnostics\<close>

text \<open>Python's \<open>xs[-1]\<close>.\<close>

definition py_last :: "'a list \<Rightarrow> error + 'a" where
  "py_last xs = (if xs = [] then Inl IndexError else Inr (last xs))"

text \<open>\<open>np.log(vocab_size) / np.log(vocab_size)\<close>: \<open>nan\<close> (here \<open>None\<close>) for a vocabulary of
  size 0 or 1, where the logarithm is \<open>-inf\<close> or 0. A comparison with \<open>nan\<close> is false.\<close>

definition max_entropy :: "nat \<Rightarrow> real option" where
  "max_entropy V = (if V \<le> 1 then None else Some (ln (real V) / ln (real V)))"

record convergence_criteria =
  entropy_ratio :: "real option"
  kl_threshold :: bool
  chi2_uniform :: bool
  converged :: bool

text \<open>The final convergence test of \<open>DiffusionValidator.test_forward_diffusion_convergence\<close>,
  from the three metric trajectories.\<close>

definition validator_convergence ::
  "nat \<Rightarrow> real list \<Rightarrow> real list \<Rightarrow> real list \<Rightarrow> error + convergence_criteria" where
  "validator_convergence V entropy kl_from_uniform chi_squared_pvalue =
     err_bind (py_last entropy) (\<lambda>final_entropy.
     err_bind (py_last kl_from_uniform) (\<lambda>final_kl.
     err_bind (py_last chi_squared_pvalue) (\<lambda>final_chi2.
        let ratio = map_option (\<lambda>m. final_entropy / m) (max_entropy V);
            ratio_ok = (case ratio of None \<Rightarrow> False | Some q \<Rightarrow> q > 0.95)
        in Inr \<lparr> entropy_ratio = ratio,
                 kl_threshold = (final_kl < 0.01),
                 chi2_uniform = (final_chi2 > 0.05),
                 converged = (ratio_ok \<and> final_kl < 0.01 \<and> final_chi2 > 0.05) \<rparr>)))"

record final_status =
  entropy_converged :: bool
  kl_converged :: bool
  chi2_converged :: bool
  overall_converged :: bool

text \<open>The final status of \<open>EnhancedMetrics.measure_convergence_quality\<close>.\<close>

definition metrics_final_status ::
  "real list \<Rightarrow> real list \<Rightarrow> real list \<Rightarrow> error + final_status" where
  "metrics_final_status entropy_trajectory kl_trajectory chi2_pvalues =
     err_bind (py_last entropy_trajectory) (\<lambda>final_entropy.
     err_bind (py_last kl_trajectory) (\<lambda>final_kl.
     err_bind (py_last chi2_pvalues) (\<lambda>final_chi2_p.
        Inr \<lparr> entropy_converged = (final_entropy > 0.95),
              kl_converged = (final_kl < 0.01),
              chi2_converged = (final_chi2_p > 0.05),
              overall_converged = (final_entropy > 0.95 \<and> final_kl < 0.01) \<rparr>)))"

text \<open>The final check of \<open>EnhancedAdaptiveUniform.validate_convergence\<close>.\<close>

definition validate_convergence_final :: "real list \<Rightarrow> real list \<Rightarrow> error + bool" where
  "validate_convergence_final kl_from_uniform entropy =
     err_bind (py_last kl_from_uniform) (\<lambda>final_kl.
     err_bind (py_last entropy) (\<lambda>final_entropy.
        Inr (final_kl < 0.01 \<and> final_entropy > 0.95)))"

section \<open>AdaptiveTransitionMatrix\<close>

text \<open>\<open>tensor.mean()\<close> over all entries; the mean of an empty tensor is \<open>nan\<close>.\<close>

definition mean_all :: "real list list \<Rightarrow> real option" where
  "mean_all es =
     (let xs = concat es in if xs = [] then None else Some (sum_list xs / real (length xs)))"

text \<open>The similarity logits of \<open>forward\<close>: the Gram matrix of the embeddings, divided by
  the square root of the embedding dimension, plus the self-transition bias on the diagonal.\<close>

definition similarity :: "atm \<Rightarrow> nat \<Rightarrow> nat \<Rightarrow> real" where
  "similarity m i j =
     sum_list (map (\<lambda>d. token_embeddings m i d * token_embeddings m j d) [0..<hidden_dim m])
       / sqrt (real (hidden_dim m))
     + (if i = j then 1 else 0) * self_transition_bias m"

definition effective_temperature :: "atm \<Rightarrow> real list list option \<Rightarrow> real option" where
  "effective_temperature m entropy_scores =
     (case entropy_scores of
        None \<Rightarrow> Some (temperature m)
      | Some es \<Rightarrow> map_option (\<lambda>mu. temperature m * (1.0 + mu)) (mean_all es))"

definition softmax :: "real list \<Rightarrow> real list" where
  "softmax xs = map (\<lambda>x. exp x / sum_list (map exp xs)) xs"

text \<open>\<open>AdaptiveTransitionMatrix.forward\<close>. With at least one token, a zero embedding
  dimension or a zero or undefined temperature divides by zero and every entry of the
  result is \<open>nan\<close>.\<close>

definition transition_matrix_forward :: "atm \<Rightarrow> real list list option \<Rightarrow> error + real list list" where
  "transition_matrix_forward m entropy_scores =
     (if vocab_size m = 0 then Inr []
      else if hidden_dim m = 0 then Inl NonFinite
      else case effective_temperature m entropy_scores of
             None \<Rightarrow> Inl NonFinite
           | Some temp \<Rightarrow>
               if temp = 0 then Inl NonFinite
               else Inr (map (\<lambda>i. softmax (map (\<lambda>j. similarity m i j / temp)
                                      [0..<vocab_size m]))
                          [0..<vocab_size m]))"

text \<open>\<open>torch.topk\<close> along a row: the indices of the \<open>k\<close> largest entries, largest first
  (ties by position).\<close>

definition topk_idx :: "nat \<Rightarrow> real list \<Rightarrow> nat list" where
  "topk_idx k row = take k (sort_key (\<lambda>i. - (row ! i)) [0..<length row])"

text \<open>\<open>scatter_\<close> along a row: the values are written at their indices, in order.\<close>

definition scatter :: "real list \<Rightarrow> nat list \<Rightarrow> real list \<Rightarrow> real list" where
  "scatter base idx vals = fold (\<lambda>(i, v) acc. acc[i := v]) (zip idx vals) base"

definition sparsify_row :: "nat \<Rightarrow> real list \<Rightarrow> real list" where
  "sparsify_row k row =
     (let topk_idx = topk_idx k row;
          topk_vals = map (\<lambda>i. row ! i) topk_idx
      in scatter (replicate (length row) 0) topk_idx topk_vals)"

text \<open>\<open>AdaptiveTransitionMatrix.get_sparse_transitions\<close>. \<open>topk\<close> raises when \<open>k\<close> exceeds
  the row length; a row whose kept entries sum to zero renormalizes to \<open>nan\<close>.\<close>

definition get_sparse_transitions :: "atm \<Rightarrow> nat \<Rightarrow> error + real list list" where
  "get_sparse_transitions m k =
     err_bind (transition_matrix_forward m None) (\<lambda>transition_matrix.
       if k > vocab_size m then Inl RuntimeError
       else let sparse_transitions = map (sparsify_row k) transition_matrix
            in if \<exists>row \<in> set sparse_transitions. sum_list row = 0 then Inl NonFinite
               else Inr (map (\<lambda>row. map (\<lambda>x. x / sum_list row) row) sparse_transitions))"

section \<open>The adaptive rate matrix\<close>

text \<open>\<open>EntropyEstimator.forward(x_t, return_all=True)\<close> as the graph calls it: the
  embedding lookup raises on a token outside the vocabulary, and adding the position
  embeddings raises on a sequence longer than their 1024 rows; otherwise the network
  answers.\<close>

definition entropy_scores_of :: "adaptive_uniform \<Rightarrow> tokens \<Rightarrow> error + real list list" where
  "entropy_scores_of g x_t =
     (if \<not> in_vocab (dim g) x_t then Inl IndexError
      else if \<exists>row \<in> set x_t. 1024 < length row then Inl RuntimeError
      else Inr (entropy_estimator g x_t))"

text \<open>\<open>masked_fill(mask, 0)\<close> with the identity mask: the diagonal is set to zero.\<close>

definition masked_fill_eye :: "real list list \<Rightarrow> real list list" where
  "masked_fill_eye M = map (\<lambda>i. (M ! i)[i := 0]) [0..<length M]"

text \<open>\<open>M - off * mask.float()\<close>: the row value \<open>off\<close> is subtracted on the diagonal.\<close>

definition minus_on_diagonal :: "real list list \<Rightarrow> real list \<Rightarrow> real list list" where
  "minus_on_diagonal M off =
     map (\<lambda>i. map (\<lambda>j. M ! i ! j - off ! i * (if i = j then 1 else 0)) [0..<length (M ! i)])
       [0..<length M]"

text \<open>The rate matrix of one position of \<open>AdaptiveUniform.adaptive_rate\<close>.\<close>

definition rate_position :: "real list list \<Rightarrow> real \<Rightarrow> real \<Rightarrow> real list list" where
  "rate_position trans_matrix scale entropy_factor =
     (let rate_matrix = map (map (\<lambda>p. p * scale * entropy_factor)) trans_matrix;
          off_diagonal_sum = map sum_list (masked_fill_eye rate_matrix)
      in minus_on_diagonal (masked_fill_eye rate_matrix) off_diagonal_sum)"

text \<open>\<open>AdaptiveUniform.adaptive_rate\<close>. The time is not used. The identity mask has the
  size of the graph, so a transition matrix of another size cannot be masked. A \<open>nan\<close>
  transition matrix is reported as \<open>NonFinite\<close>.\<close>

definition adaptive_rate ::
  "adaptive_uniform \<Rightarrow> tokens \<Rightarrow> pytime \<Rightarrow> error + real list list list list" where
  "adaptive_rate g x_t t =
     err_bind (entropy_scores_of g x_t) (\<lambda>entropy_scores.
     err_bind (case sparsity_k g of
                 Some k \<Rightarrow> get_sparse_transitions (transition_matrix g) k
               | None \<Rightarrow> transition_matrix_forward (transition_matrix g) (Some entropy_scores))
       (\<lambda>trans_matrix.
         if vocab_size (transition_matrix g) \<noteq> dim g then Inl RuntimeError
         else Inr (map (map (\<lambda>e. rate_position trans_matrix (rate_scale g)
                                  (1.0 + entropy_scale g * e)))
                     entropy_scores)))"

text \<open>The pure uniform rate matrix of one position, as both the pure-uniform branch and
  the blended branch of \<open>EnhancedAdaptiveUniform.adaptive_rate\<close> build it.\<close>

definition uniform_rate_position :: "nat \<Rightarrow> real list list" where
  "uniform_rate_position V =
     (let rate_matrix = replicate V (replicate V (1 / real V));
          rate_matrix = masked_fill_eye rate_matrix;
          off_diagonal_sum = map sum_list rate_matrix
      in minus_on_diagonal rate_matrix off_diagonal_sum)"

text \<open>\<open>EnhancedAdaptiveUniform.adaptive_rate\<close>: pure uniform at weight 0, the base rate
  at weight 1 or more, and the weighted combination in between.\<close>

definition enhanced_adaptive_rate ::
  "adaptive_uniform \<Rightarrow> 'a enhanced_cfg_scheme \<Rightarrow> tokens \<Rightarrow> pytime \<Rightarrow> real
     \<Rightarrow> error + real list list list list" where
  "enhanced_adaptive_rate g c x_t t max_t =
     err_bind (get_adaptive_weight c t max_t) (\<lambda>adaptive_weight.
       if adaptive_weight = 0 then
         Inr (map (map (\<lambda>_. uniform_rate_position (dim g))) x_t)
       else
         err_bind (adaptive_rate g x_t t) (\<lambda>rate_matrix.
           if adaptive_weight < 1 then
             Inr (map (map (\<lambda>Q. map2 (map2 (\<lambda>a u. adaptive_weight * a
                                                  + (1 - adaptive_weight) * u))
                                  Q (uniform_rate_position (dim g))))
                    rate_matrix)
           else Inr rate_matrix))"

text \<open>A generator matrix over \<open>V\<close> tokens: square, every row sums to zero, and the
  diagonal entry is minus the sum of the other entries of its row.\<close>

definition generator_rows :: "nat \<Rightarrow> real list list \<Rightarrow> bool" where
  "generator_rows V Q =
     (length Q = V \<and>
      (\<forall>i<V. length (Q ! i) = V \<and> sum_list (Q ! i) = 0 \<and>
              Q ! i ! i = - sum_list ((Q ! i)[i := 0])))"

text \<open>The conditions under which the transition matrix of the graph is finite and fits
  the graph.\<close>

definition temperature_ok :: "atm \<Rightarrow> real list list option \<Rightarrow> bool" where
  "temperature_ok m es =
     (case effective_temperature m es of None \<Rightarrow> False | Some temp \<Rightarrow> temp \<noteq> 0)"

definition rate_defined :: "adaptive_uniform \<Rightarrow> tokens \<Rightarrow> bool" where
  "rate_defined g x_t =
     (in_vocab (dim g) x_t \<and> (\<forall>row \<in> set x_t. length row \<le> 1024) \<and>
      vocab_size (transition_matrix g) = dim g \<and> 0 < hidden_dim (transition_matrix g) \<and>
      (case sparsity_k g of
         Some k \<Rightarrow> temperature (transition_matrix g) \<noteq> 0 \<and> 1 \<le> k \<and> k \<le> dim g
       | None \<Rightarrow> temperature_ok (transition_matrix g) (Some (entropy_estimator g x_t))))"

text \<open>Two tensors of one \<open>(batch, seq_len)\<close> shape. The estimator network answers in the
  shape of its input; as the estimator is a parameter of the graph here, the theorems
  state that as a condition.\<close>

definition same_shape :: "'a list list \<Rightarrow> 'b list list \<Rightarrow> bool" where
  "same_shape a b = (length a = length b \<and> (\<forall>i<length b. length (a ! i) = length (b ! i)))"

section \<open>The score-entropy loss\<close>


















section \<open>The chi-squared uniformity test\<close>

text \<open>\<open>DiffusionValidator._chi_squared_test\<close>: the counts of the tokens of the vocabulary,
  the expected count under the uniform distribution (a Python division, which raises at
  \<open>vocab_size = 0\<close>), and the statistic, to which a token adds nothing when the expected
  count is not positive. A tensor is rectangular, so \<open>batch_size * seq_len\<close> is the number
  of its entries.\<close>

definition observed_counts :: "nat \<Rightarrow> tokens \<Rightarrow> real list" where
  "observed_counts V x = map (\<lambda>i. real (count_list (concat x) i)) [0..<V]"

definition chi2_stat :: "nat \<Rightarrow> tokens \<Rightarrow> error + real" where
  "chi2_stat V x =
     (let observed = observed_counts V x;
          total_count = real (length (concat x))
      in err_bind (py_div total_count (real V)) (\<lambda>expected_count.
           Inr (sum_list (map (\<lambda>i. if expected_count > 0
                                    then (observed ! i - expected_count) ^ 2 / expected_count
                                    else 0) [0..<V]))))"

text \<open>The p-value is \<open>1 - stats.chi2.cdf(chi2_stat, df)\<close> with \<open>df = vocab_size - 1\<close>. The
  distribution function belongs to the statistics library; it is a parameter here.\<close>

definition chi_squared_test :: "(real \<Rightarrow> nat \<Rightarrow> real) \<Rightarrow> nat \<Rightarrow> tokens \<Rightarrow> error + real" where
  "chi_squared_test cdf V x =
     err_bind (chi2_stat V x) (\<lambda>stat. Inr (1 - cdf stat (V - 1)))"

section \<open>Auxiliary facts\<close>

lemma err_bind_Inl [simp]: "err_bind (Inl e) f = Inl e"
  by (simp add: err_bind_def)

lemma err_bind_Inr [simp]: "err_bind (Inr x) f = f x"
  by (simp add: err_bind_def)

lemma err_bind_eq_Inr:
  "err_bind m f = Inr y \<longleftrightarrow> (\<exists>x. m = Inr x \<and> f x = Inr y)"
  by (cases m) simp_all

lemma tabulate2_length [simp]: "length (tabulate2 x f) = length x"
  by (simp add: tabulate2_def)

lemma tabulate2_row_length [simp]: "b < length x \<Longrightarrow> length (tabulate2 x f ! b) = length (x ! b)"
  by (simp add: tabulate2_def)

lemma tabulate2_nth [simp]:
  "b < length x \<Longrightarrow> l < length (x ! b) \<Longrightarrow> tabulate2 x f ! b ! l = f b l (x ! b ! l)"
  by (simp add: tabulate2_def)

lemma in_vocab_nth:
  assumes "in_vocab V x" and "b < length x" and "l < length (x ! b)"
  shows "x ! b ! l < V"
proof -
  have "x ! b \<in> set x" using assms(2) by simp
  moreover have "x ! b ! l \<in> set (x ! b)" using assms(3) by simp
  ultimately show ?thesis using assms(1) unfolding in_vocab_def by blast
qed

lemma sum_list_update_real:
  fixes xs :: "real list"
  shows "k < length xs \<Longrightarrow> sum_list (xs[k := v]) = sum_list xs + v - xs ! k"
proof (induction xs arbitrary: k)
  case Nil
  then show ?case by simp
next
  case (Cons a xs)
  then show ?case by (cases k) simp_all
qed

section \<open>The uniform transition row\<close>

lemma transition_row_length [simp]: "length (transition_row V tok s) = V"
  by (simp add: transition_row_def Let_def)

lemma transition_row_sum: "tok < V \<Longrightarrow> sum_list (transition_row V tok s) = 1"
  by (simp add: transition_row_def Let_def sum_list_update_real)

lemma transition_row_other:
  "tok < V \<Longrightarrow> j < V \<Longrightarrow> j \<noteq> tok \<Longrightarrow> transition_row V tok s ! j = (1 - exp (- s)) / real V"
  by (simp add: transition_row_def Let_def)

lemma transition_row_self:
  "tok < V \<Longrightarrow> transition_row V tok s ! tok = 1 - (real V - 1) * (1 - exp (- s)) / real V"
  by (simp add: transition_row_def Let_def sum_list_update_real sum_list_replicate field_simps)

lemma transition_row_nonneg:
  assumes "tok < V" and "0 \<le> s" and "j < V"
  shows "0 \<le> transition_row V tok s ! j"
proof (cases "j = tok")
  case False
  have "exp (- s) \<le> 1" using assms(2) by simp
  then show ?thesis using False assms by (simp add: transition_row_other)
next
  case True
  have V: "0 < real V" using assms(1) by simp
  have e: "0 \<le> 1 - exp (- s)" "1 - exp (- s) \<le> 1" using assms(2) by simp_all
  have "(real V - 1) * (1 - exp (- s)) \<le> (real V - 1) * 1"
    using e V assms(1) by (intro mult_left_mono) simp_all
  also have "\<dots> \<le> real V" by simp
  finally have "(real V - 1) * (1 - exp (- s)) / real V \<le> 1"
    using V by (simp add: field_simps)
  then show ?thesis using True assms(1) by (simp add: transition_row_self)
qed

lemma transition_row_zero_sigma:
  assumes "tok < V"
  shows "transition_row V tok 0 = (replicate V 0)[tok := 1]"
proof -
  have "sum_list ((replicate V (0::real))[tok := 0]) = 0"
    using assms by (simp add: sum_list_update_real sum_list_replicate)
  then show ?thesis by (simp add: transition_row_def Let_def)
qed

text \<open>
  Claim C10. For a token batch with entries below the vocabulary size and a noise level
  \<open>sigma \<ge> 0\<close> at every position, \<open>transition\<close> returns a tensor of the shape of the batch
  whose every row is a probability vector: it has one entry per token, the entries are
  non-negative and sum to 1, every token other than the current one has probability
  \<open>(1 - exp(-sigma)) / dim\<close>, the current token has the remaining mass
  \<open>1 - (dim - 1) * (1 - exp(-sigma)) / dim\<close>, and at \<open>sigma = 0\<close> the row is the
  identity row of the current token.
\<close>

theorem transition_rows_are_distributions:
  assumes "in_vocab (dim g) i" and "\<forall>b l. 0 \<le> sigma b l"
  shows "\<exists>T. transition g i sigma = Inr T \<and> length T = length i \<and>
           (\<forall>b<length i. length (T ! b) = length (i ! b) \<and>
              (\<forall>l<length (i ! b).
                 length (T ! b ! l) = dim g \<and>
                 sum_list (T ! b ! l) = 1 \<and>
                 (\<forall>j<dim g. 0 \<le> T ! b ! l ! j) \<and>
                 (\<forall>j<dim g. j \<noteq> i ! b ! l \<longrightarrow>
                     T ! b ! l ! j = (1 - exp (- sigma b l)) / real (dim g)) \<and>
                 T ! b ! l ! (i ! b ! l) =
                     1 - (real (dim g) - 1) * (1 - exp (- sigma b l)) / real (dim g) \<and>
                 (sigma b l = 0 \<longrightarrow> T ! b ! l = (replicate (dim g) 0)[i ! b ! l := 1])))"
proof -
  let ?T = "tabulate2 i (\<lambda>b l tok. transition_row (dim g) tok (sigma b l))"
  have ret: "transition g i sigma = Inr ?T"
    using assms(1) by (simp add: transition_def)
  have row: "length (?T ! b ! l) = dim g \<and>
             sum_list (?T ! b ! l) = 1 \<and>
             (\<forall>j<dim g. 0 \<le> ?T ! b ! l ! j) \<and>
             (\<forall>j<dim g. j \<noteq> i ! b ! l \<longrightarrow>
                 ?T ! b ! l ! j = (1 - exp (- sigma b l)) / real (dim g)) \<and>
             ?T ! b ! l ! (i ! b ! l) =
                 1 - (real (dim g) - 1) * (1 - exp (- sigma b l)) / real (dim g) \<and>
             (sigma b l = 0 \<longrightarrow> ?T ! b ! l = (replicate (dim g) 0)[i ! b ! l := 1])"
    if b: "b < length i" and l: "l < length (i ! b)" for b l
  proof -
    have tok: "i ! b ! l < dim g" using in_vocab_nth [OF assms(1) b l] .
    have s: "0 \<le> sigma b l" using assms(2) by simp
    have eq: "?T ! b ! l = transition_row (dim g) (i ! b ! l) (sigma b l)"
      using b l by simp
    show ?thesis
      unfolding eq
      using tok s
      by (auto simp: transition_row_sum transition_row_other transition_row_self
            transition_row_nonneg transition_row_zero_sigma)
  qed
  show ?thesis
    using ret row by (intro exI [of _ ?T]) simp
qed

theorem transition_rows_are_distributions_witness:
  "\<exists>T. transition \<lparr>dim = 3, entropy_scale = 1, sparsity_k = None,
                    entropy_estimator = (\<lambda>x. map (map (\<lambda>_. 1 / 2)) x),
                    transition_matrix = \<lparr>vocab_size = 3, hidden_dim = 1,
                       token_embeddings = (\<lambda>_ _. 0), temperature = 1,
                       self_transition_bias = 0\<rparr>,
                    rate_scale = 1, rate_bias = 0\<rparr> [[2]] (\<lambda>_ _. 0) = Inr T \<and>
       sum_list (T ! 0 ! 0) = 1 \<and> T ! 0 ! 0 = [0, 0, 1]"
proof -
  let ?g = "\<lparr>dim = 3, entropy_scale = 1, sparsity_k = None,
             entropy_estimator = (\<lambda>x. map (map (\<lambda>_. 1 / 2)) x),
             transition_matrix = \<lparr>vocab_size = 3, hidden_dim = 1,
                token_embeddings = (\<lambda>_ _. 0), temperature = 1,
                self_transition_bias = 0\<rparr>,
             rate_scale = 1 :: real, rate_bias = 0 :: real\<rparr>"
  have h1: "in_vocab (dim ?g) [[2]]" by (simp add: in_vocab_def)
  have h2: "\<forall>b l. (0::real) \<le> (\<lambda>_ _. 0) b l" by simp
  from transition_rows_are_distributions [OF h1 h2]
  obtain T where T: "transition ?g [[2]] (\<lambda>_ _. 0) = Inr T"
    and rows: "\<forall>b<length [[2::nat]]. length (T ! b) = length ([[2::nat]] ! b) \<and>
              (\<forall>l<length ([[2::nat]] ! b).
                 length (T ! b ! l) = dim ?g \<and>
                 sum_list (T ! b ! l) = 1 \<and>
                 (\<forall>j<dim ?g. 0 \<le> T ! b ! l ! j) \<and>
                 (\<forall>j<dim ?g. j \<noteq> [[2::nat]] ! b ! l \<longrightarrow>
                     T ! b ! l ! j = (1 - exp (- (\<lambda>_ _. 0::real) b l)) / real (dim ?g)) \<and>
                 T ! b ! l ! ([[2::nat]] ! b ! l) =
                     1 - (real (dim ?g) - 1) * (1 - exp (- (\<lambda>_ _. 0::real) b l)) / real (dim ?g) \<and>
                 ((\<lambda>_ _. 0::real) b l = 0 \<longrightarrow>
                     T ! b ! l = (replicate (dim ?g) 0)[[[2::nat]] ! b ! l := 1]))"
    by blast
  from rows have r: "sum_list (T ! 0 ! 0) = 1 \<and> T ! 0 ! 0 = [0, 0, 1]"
    by (simp add: numeral_3_eq_3 numeral_2_eq_2)
  with T show ?thesis by auto
qed

text \<open>
  Claim C6. On a graph with a positive vocabulary size, \<open>sample_transition\<close> returns a
  batch of the shape of its input in which each position holds the uniformly drawn token
  \<open>r\<close> exactly when its own uniform draw \<open>u\<close> falls below \<open>1 - exp(-sigma)\<close>, and the
  input token otherwise; each position reads only its own two draws. For \<open>sigma \<ge> 0\<close>
  the draws of \<open>[0, 1)\<close> that replace the token form the interval
  \<open>[0, 1 - exp(-sigma))\<close>, of length \<open>1 - exp(-sigma)\<close>. The result is the same on every
  graph with the same vocabulary size, whatever its entropy estimator, transition matrix,
  rate parameters, entropy scale and sparsity.
\<close>

theorem sample_transition_uniform_corruption:
  assumes "0 < dim g"
  shows "\<exists>y. sample_transition g i sigma u r = Inr y \<and> length y = length i \<and>
           (\<forall>b<length i. length (y ! b) = length (i ! b) \<and>
              (\<forall>l<length (i ! b).
                 y ! b ! l = (if u b l < 1 - exp (- sigma b l) then r b l else i ! b ! l))) \<and>
           (\<forall>g'. dim g' = dim g \<longrightarrow> sample_transition g' i sigma u r = Inr y) \<and>
           (\<forall>s\<ge>0. {p. 0 \<le> p \<and> p < 1 \<and> p < move_chance s} = {0..<1 - exp (- s)} \<and>
                  0 \<le> move_chance s \<and> move_chance s < 1)"
proof -
  let ?y = "tabulate2 i (\<lambda>b l tok.
             let move_indices = (u b l < move_chance (sigma b l))
             in if move_indices then r b l else tok)"
  have ret: "sample_transition g' i sigma u r = Inr ?y" if "dim g' = dim g" for g'
    using that assms by (simp add: sample_transition_def)
  have pos: "?y ! b ! l = (if u b l < 1 - exp (- sigma b l) then r b l else i ! b ! l)"
    if "b < length i" "l < length (i ! b)" for b l
    using that by (simp add: move_chance_def)
  have meas: "{p. 0 \<le> p \<and> p < 1 \<and> p < move_chance s} = {0..<1 - exp (- s)} \<and>
              0 \<le> move_chance s \<and> move_chance s < 1" if "0 \<le> s" for s :: real
  proof -
    have le: "exp (- s) \<le> 1" using that by simp
    have gt: "0 < exp (- s)" by simp
    have "p < 1" if "p < 1 - exp (- s)" for p
      using that gt by linarith
    then have "{p. 0 \<le> p \<and> p < 1 \<and> p < 1 - exp (- s)} = {0..<1 - exp (- s)}"
      by auto
    then show ?thesis using le gt by (simp add: move_chance_def)
  qed
  show ?thesis
    using ret [of g] ret pos meas by (intro exI [of _ ?y]) simp
qed

theorem sample_transition_uniform_corruption_witness:
  "\<exists>y. sample_transition \<lparr>dim = 3, entropy_scale = 1, sparsity_k = None,
                    entropy_estimator = (\<lambda>x. map (map (\<lambda>_. 1 / 2)) x),
                    transition_matrix = \<lparr>vocab_size = 3, hidden_dim = 1,
                       token_embeddings = (\<lambda>_ _. 0), temperature = 1,
                       self_transition_bias = 0\<rparr>,
                    rate_scale = 1, rate_bias = 0\<rparr>
          [[0, 1]] (\<lambda>b l. if l = 0 then 1 else 0) (\<lambda>_ _. 0) (\<lambda>_ _. 2) = Inr y \<and>
       y ! 0 ! 0 = 2 \<and> y ! 0 ! 1 = 1"
proof -
  let ?g = "\<lparr>dim = 3, entropy_scale = 1, sparsity_k = None,
             entropy_estimator = (\<lambda>x. map (map (\<lambda>_. 1 / 2)) x),
             transition_matrix = \<lparr>vocab_size = 3, hidden_dim = 1,
                token_embeddings = (\<lambda>_ _. 0), temperature = 1,
                self_transition_bias = 0\<rparr>,
             rate_scale = 1 :: real, rate_bias = 0 :: real\<rparr>"
  let ?sigma = "\<lambda>(b::nat) (l::nat). if l = 0 then 1 else (0::real)"
  have h: "0 < dim ?g" by simp
  from sample_transition_uniform_corruption [OF h, of "[[0, 1]]" ?sigma "\<lambda>_ _. 0" "\<lambda>_ _. 2"]
  obtain y where y: "sample_transition ?g [[0, 1]] ?sigma (\<lambda>_ _. 0) (\<lambda>_ _. 2) = Inr y"
    and pos: "\<forall>b<length [[0::nat, 1]]. length (y ! b) = length ([[0::nat, 1]] ! b) \<and>
              (\<forall>l<length ([[0::nat, 1]] ! b).
                 y ! b ! l = (if (\<lambda>_ _. 0::real) b l < 1 - exp (- ?sigma b l)
                              then (\<lambda>_ _. 2::nat) b l else [[0::nat, 1]] ! b ! l))"
    by blast
  from pos have "y ! 0 ! 0 = 2 \<and> y ! 0 ! 1 = 1"
    by (simp add: All_less_Suc)
  with y show ?thesis by blast
qed

text \<open>
  Claim C7. With non-empty metric trajectories and a vocabulary of at least two tokens,
  each diagnostic returns its verdict, and the verdict is "converged" exactly when the
  final normalized entropy (the entropy ratio) exceeds 0.95 and the final KL divergence
  from uniform is below 0.01; \<open>DiffusionValidator\<close> also requires the final chi-squared
  p-value to exceed 0.05, while the overall status of \<open>EnhancedMetrics\<close> and
  \<open>validate_convergence\<close> use the entropy and KL clauses only. A run that misses a
  threshold gets the verdict \<open>False\<close>, not an error.
\<close>

theorem convergence_verdicts:
  assumes "entropy \<noteq> []" and "kl \<noteq> []" and "chi2 \<noteq> []" and "2 \<le> V"
  shows "(\<exists>c. validator_convergence V entropy kl chi2 = Inr c \<and>
              entropy_ratio c = Some (last entropy) \<and>
              (converged c \<longleftrightarrow>
                 last entropy > 0.95 \<and> last kl < 0.01 \<and> last chi2 > 0.05)) \<and>
         (\<exists>f. metrics_final_status entropy kl chi2 = Inr f \<and>
              (overall_converged f \<longleftrightarrow> last entropy > 0.95 \<and> last kl < 0.01)) \<and>
         validate_convergence_final kl entropy =
              Inr (last kl < 0.01 \<and> last entropy > 0.95)"
proof -
  have "1 < real V" using assms(4) by simp
  then have "0 < ln (real V)" by simp
  then have m: "max_entropy V = Some 1"
    using assms(4) by (simp add: max_entropy_def)
  show ?thesis
    using assms(1-3) m
    by (simp add: validator_convergence_def metrics_final_status_def
          validate_convergence_final_def py_last_def Let_def)
qed

theorem convergence_verdicts_witness:
  "(\<exists>c. validator_convergence 4 [1/2, 99/100] [1, 1/1000] [0, 1/2] = Inr c \<and> converged c) \<and>
   (\<exists>f. metrics_final_status [1/2, 99/100] [1, 1/1000] [0, 1/2] = Inr f \<and> overall_converged f) \<and>
   validate_convergence_final [1, 1/1000] [1/2, 99/100] = Inr True"
  using convergence_verdicts [of "[1/2, 99/100]" "[1, 1/1000]" "[0, 1/2]" 4]
  by auto

section \<open>The adaptive weight\<close>

lemma sigmoid_bounds: "0 < sigmoid x \<and> sigmoid x < 1"
proof -
  have q: "0 < 1 + exp (- x)" by (simp add: add_pos_pos)
  have p: "1 < 1 + exp (- x)" by simp
  have "1 / (1 + exp (- x)) < 1" using divide_less_eq_1_pos [OF q, of 1] p by blast
  moreover have "0 < 1 / (1 + exp (- x))" using q by (rule divide_pos_pos [OF zero_less_one])
  ultimately show ?thesis by (simp only: sigmoid_def)
qed

lemma get_adaptive_weight_v2_eq:
  "\<not> use_learnable_schedule c \<Longrightarrow> get_adaptive_weight_v2 c t max_t = get_adaptive_weight c t max_t"
  by (simp add: get_adaptive_weight_v2_def get_adaptive_weight_def)

lemma learnable_schedule_range:
  assumes "normalize_t t max_t = Inr n"
  shows "\<exists>w. learnable_schedule_forward c t max_t = Inr w \<and> 0 < w \<and> w < 1"
proof -
  let ?a = "sigmoid (schedule_logit c n)"
  let ?b = "sigmoid ((transition_point c - n) / 0.1)"
  have a: "0 < ?a" "?a < 1" using sigmoid_bounds by simp_all
  have b: "0 < ?b" "?b < 1" using sigmoid_bounds by simp_all
  have "?a * ?b < 1 * 1" using a b by (intro mult_strict_mono) simp_all
  moreover have "0 < ?a * ?b" using a b by simp
  ultimately show ?thesis
    using assms by (simp add: learnable_schedule_forward_def Let_def)
qed

text \<open>With only two-stage enabled the early return of the first test answers before the
  stage is looked at: the weight is 1 at every time, also after the transition point.\<close>

lemma two_stage_alone_returns_one:
  "\<not> use_asymptotic_guarantee c \<Longrightarrow> \<not> use_controlled_decay c \<Longrightarrow>
     get_adaptive_weight c t max_t = Inr 1"
  by (simp add: get_adaptive_weight_def)



lemma weight_without_two_stage:
  assumes "normalize_t t max_t = Inr n" and "\<not> use_two_stage c"
    and "use_controlled_decay c \<longrightarrow> decay_tau c \<noteq> 0"
  shows "get_adaptive_weight c t max_t = Inr (spec_product_weight c n)"
  using assms
  by (auto simp: get_adaptive_weight_def spec_product_weight_def asymptotic_factor_def
        decay_factor_def py_div_def Let_def)

lemma weight_with_two_stage:
  assumes "normalize_t t max_t = Inr n" and "use_two_stage c"
    and "use_asymptotic_guarantee c \<or> use_controlled_decay c"
    and "use_controlled_decay c \<and> n < stage_transition_point c \<longrightarrow>
           decay_tau c * stage_transition_point c \<noteq> 0"
  shows "get_adaptive_weight c t max_t =
           Inr (if n < stage_transition_point c
                then (if use_controlled_decay c
                      then exp (- n / (decay_tau c * stage_transition_point c)) else 1)
                else 0)"
  using assms
  by (auto simp: get_adaptive_weight_def py_div_def)




text \<open>
  Claim C4, as stated, fails on the V2 graph with the learned schedule: the weight is a
  product of two sigmoids, so it is below 1 at \<open>t = 0\<close> with controlled decay disabled,
  and above 0 after the stage transition point with two-stage enabled.
\<close>

theorem weight_endpoints_counterexample:
  "get_adaptive_weight_v2 \<lparr>use_asymptotic_guarantee = True, use_two_stage = True,
        stage_transition_point = 8 / 10, use_controlled_decay = False,
        decay_tau = 1 / 10, use_learnable_schedule = True,
        schedule_logit = (\<lambda>_. 0), transition_point = 8 / 10\<rparr> (PyNum 0) 1 \<noteq> Inr 1 \<and>
   get_adaptive_weight_v2 \<lparr>use_asymptotic_guarantee = True, use_two_stage = True,
        stage_transition_point = 8 / 10, use_controlled_decay = False,
        decay_tau = 1 / 10, use_learnable_schedule = True,
        schedule_logit = (\<lambda>_. 0), transition_point = 8 / 10\<rparr> (PyNum (9 / 10)) 1 \<noteq> Inr 0"
proof -
  let ?c = "\<lparr>use_asymptotic_guarantee = True, use_two_stage = True,
        stage_transition_point = 8 / 10, use_controlled_decay = False,
        decay_tau = 1 / 10, use_learnable_schedule = True,
        schedule_logit = (\<lambda>_. 0::real), transition_point = 8 / 10 :: real\<rparr>"
  have n: "normalize_t (PyNum x) 1 = Inr x" for x
    by (simp add: normalize_t_def py_div_def)
  have "\<exists>w. get_adaptive_weight_v2 ?c (PyNum x) 1 = Inr w \<and> 0 < w \<and> w < 1" for x
    using learnable_schedule_range [OF n, of ?c x]
    by (simp add: get_adaptive_weight_v2_def)
  then show ?thesis by (metis Inr_inject less_irrefl)
qed

text \<open>
  Claim C4, amended. With the learned schedule off (always, on the V1 graph) and a numeric
  time: when controlled decay is disabled, \<open>max_t\<close> is not zero and the stage transition
  point is positive, the weight at \<open>t = 0\<close> is 1; when two-stage is enabled together with
  the asymptotic guarantee or controlled decay, the weight is 0 at every normalized time
  at or after the stage transition point.
\<close>

theorem adaptive_weight_endpoints:
  assumes "\<not> use_learnable_schedule c2"
  shows "(\<not> use_controlled_decay c \<and> max_t \<noteq> 0 \<and> 0 < stage_transition_point c \<longrightarrow>
            get_adaptive_weight c (PyNum 0) max_t = Inr 1) \<and>
         (use_two_stage c \<and> (use_asymptotic_guarantee c \<or> use_controlled_decay c) \<and>
            normalize_t t max_t = Inr n \<and> stage_transition_point c \<le> n \<longrightarrow>
            get_adaptive_weight c t max_t = Inr 0) \<and>
         (\<not> use_controlled_decay c2 \<and> max_t \<noteq> 0 \<and> 0 < stage_transition_point c2 \<longrightarrow>
            get_adaptive_weight_v2 c2 (PyNum 0) max_t = Inr 1) \<and>
         (use_two_stage c2 \<and> (use_asymptotic_guarantee c2 \<or> use_controlled_decay c2) \<and>
            normalize_t t max_t = Inr n \<and> stage_transition_point c2 \<le> n \<longrightarrow>
            get_adaptive_weight_v2 c2 t max_t = Inr 0)"
proof -
  have start: "get_adaptive_weight k (PyNum 0) max_t = Inr 1"
    if "\<not> use_controlled_decay k" "max_t \<noteq> 0" "0 < stage_transition_point k"
    for k :: "'z enhanced_cfg_scheme"
    using that by (simp add: get_adaptive_weight_def normalize_t_def py_div_def)
  have stage: "get_adaptive_weight k t max_t = Inr 0"
    if "use_two_stage k" "use_asymptotic_guarantee k \<or> use_controlled_decay k"
       "normalize_t t max_t = Inr n" "stage_transition_point k \<le> n"
    for k :: "'z enhanced_cfg_scheme"
    using that by (auto simp: get_adaptive_weight_def)
  show ?thesis
    using start [of c] stage [of c] start [of c2] stage [of c2] assms
    by (simp add: get_adaptive_weight_v2_eq)
qed

theorem adaptive_weight_endpoints_witness:
  "get_adaptive_weight \<lparr>use_asymptotic_guarantee = True, use_two_stage = True,
        stage_transition_point = 8 / 10, use_controlled_decay = False,
        decay_tau = 1 / 10\<rparr> (PyNum 0) 1 = Inr 1 \<and>
   get_adaptive_weight \<lparr>use_asymptotic_guarantee = True, use_two_stage = True,
        stage_transition_point = 8 / 10, use_controlled_decay = False,
        decay_tau = 1 / 10\<rparr> (PyNum (9 / 10)) 1 = Inr 0 \<and>
   get_adaptive_weight_v2 \<lparr>use_asymptotic_guarantee = True, use_two_stage = True,
        stage_transition_point = 8 / 10, use_controlled_decay = False,
        decay_tau = 1 / 10, use_learnable_schedule = False,
        schedule_logit = (\<lambda>_. 0), transition_point = 8 / 10\<rparr> (PyNum 0) 1 = Inr 1 \<and>
   get_adaptive_weight_v2 \<lparr>use_asymptotic_guarantee = True, use_two_stage = True,
        stage_transition_point = 8 / 10, use_controlled_decay = False,
        decay_tau = 1 / 10, use_learnable_schedule = False,
        schedule_logit = (\<lambda>_. 0), transition_point = 8 / 10\<rparr> (PyNum (9 / 10)) 1 = Inr 0"
  using adaptive_weight_endpoints [of
      "\<lparr>use_asymptotic_guarantee = True, use_two_stage = True,
        stage_transition_point = 8 / 10, use_controlled_decay = False,
        decay_tau = 1 / 10, use_learnable_schedule = False,
        schedule_logit = (\<lambda>_. 0), transition_point = 8 / 10\<rparr>"
      "\<lparr>use_asymptotic_guarantee = True, use_two_stage = True,
        stage_transition_point = 8 / 10, use_controlled_decay = False,
        decay_tau = 1 / 10\<rparr>" 1 "PyNum (9 / 10)" "9 / 10"]
  by (simp add: normalize_t_def py_div_def)

text \<open>
  Claim C5, as stated, fails: with two-stage and the asymptotic guarantee both enabled
  (controlled decay off) the weight before the transition point is 1, not the product
  \<open>1 * (1 - t\<^sup>2)\<close> of the two factors; at \<open>t = 0.5\<close> the code returns 1 and the product
  is 0.75. The same holds on the V2 graph.
\<close>

theorem policy_product_counterexample:
  "get_adaptive_weight \<lparr>use_asymptotic_guarantee = True, use_two_stage = True,
        stage_transition_point = 8 / 10, use_controlled_decay = False,
        decay_tau = 1 / 10\<rparr> (PyNum (1 / 2)) 1 = Inr 1 \<and>
   spec_product_weight \<lparr>use_asymptotic_guarantee = True, use_two_stage = True,
        stage_transition_point = 8 / 10, use_controlled_decay = False,
        decay_tau = 1 / 10\<rparr> (1 / 2) = 3 / 4 \<and>
   get_adaptive_weight_v2 \<lparr>use_asymptotic_guarantee = True, use_two_stage = True,
        stage_transition_point = 8 / 10, use_controlled_decay = False,
        decay_tau = 1 / 10, use_learnable_schedule = False,
        schedule_logit = (\<lambda>_. 0), transition_point = 8 / 10\<rparr> (PyNum (1 / 2)) 1 = Inr 1"
  by (simp add: get_adaptive_weight_def get_adaptive_weight_v2_def normalize_t_def
        py_div_def spec_product_weight_def two_stage_factor_def asymptotic_factor_def
        power2_eq_square)

text \<open>
  Claim C5, amended. The policies are branches of one \<open>if\<close>/\<open>elif\<close> chain. With two-stage
  disabled, the weight is the product of the factors of the enabled policies: \<open>1 - t\<^sup>2\<close>
  for the asymptotic guarantee and \<open>exp(-t / tau)\<close> for controlled decay. With two-stage
  enabled together with the asymptotic guarantee or controlled decay, the weight is 0 at
  or after the stage transition point and, before it, \<open>exp(-t / (tau * stage point))\<close> when
  controlled decay is enabled and 1 otherwise: the asymptotic factor is not applied. The
  V2 graph computes the same weight whenever its learned schedule is off. Here \<open>t\<close> is the
  normalized time, and the decay constant (times the stage point, under two-stage) is not
  zero.
\<close>

theorem adaptive_weight_policy_composition:
  assumes "normalize_t t max_t = Inr n"
  shows "(\<not> use_two_stage c \<and> (use_controlled_decay c \<longrightarrow> decay_tau c \<noteq> 0) \<longrightarrow>
            get_adaptive_weight c t max_t = Inr (spec_product_weight c n)) \<and>
         (use_two_stage c \<and> (use_asymptotic_guarantee c \<or> use_controlled_decay c) \<and>
            (use_controlled_decay c \<and> n < stage_transition_point c \<longrightarrow>
               decay_tau c * stage_transition_point c \<noteq> 0) \<longrightarrow>
            get_adaptive_weight c t max_t =
              Inr (if n < stage_transition_point c
                   then (if use_controlled_decay c
                         then exp (- n / (decay_tau c * stage_transition_point c)) else 1)
                   else 0)) \<and>
         (\<not> use_learnable_schedule c2 \<longrightarrow>
            get_adaptive_weight_v2 c2 t max_t = get_adaptive_weight c2 t max_t)"
  using weight_without_two_stage [OF assms, of c] weight_with_two_stage [OF assms, of c]
    get_adaptive_weight_v2_eq [of c2 t max_t]
  by blast

theorem adaptive_weight_policy_composition_witness:
  "get_adaptive_weight \<lparr>use_asymptotic_guarantee = True, use_two_stage = False,
        stage_transition_point = 8 / 10, use_controlled_decay = True,
        decay_tau = 1 / 10\<rparr> (PyNum (1 / 2)) 1 = Inr (3 / 4 * exp (- 5)) \<and>
   get_adaptive_weight \<lparr>use_asymptotic_guarantee = True, use_two_stage = True,
        stage_transition_point = 8 / 10, use_controlled_decay = False,
        decay_tau = 1 / 10\<rparr> (PyNum (1 / 2)) 1 = Inr 1 \<and>
   get_adaptive_weight_v2 \<lparr>use_asymptotic_guarantee = True, use_two_stage = True,
        stage_transition_point = 8 / 10, use_controlled_decay = False,
        decay_tau = 1 / 10, use_learnable_schedule = False,
        schedule_logit = (\<lambda>_. 0), transition_point = 8 / 10\<rparr> (PyNum (1 / 2)) 1 = Inr 1"
proof -
  let ?v2 = "\<lparr>use_asymptotic_guarantee = True, use_two_stage = True,
        stage_transition_point = 8 / 10, use_controlled_decay = False,
        decay_tau = 1 / 10, use_learnable_schedule = False,
        schedule_logit = (\<lambda>_. 0::real), transition_point = 8 / 10 :: real\<rparr>"
  have n: "normalize_t (PyNum (1 / 2)) 1 = Inr (1 / 2)"
    by (simp add: normalize_t_def py_div_def)
  have a: "get_adaptive_weight \<lparr>use_asymptotic_guarantee = True, use_two_stage = False,
        stage_transition_point = 8 / 10, use_controlled_decay = True,
        decay_tau = 1 / 10\<rparr> (PyNum (1 / 2)) 1 = Inr (3 / 4 * exp (- 5))"
    using adaptive_weight_policy_composition [OF n, of
      "\<lparr>use_asymptotic_guarantee = True, use_two_stage = False,
        stage_transition_point = 8 / 10, use_controlled_decay = True,
        decay_tau = 1 / 10\<rparr>" ?v2]
    by (simp add: spec_product_weight_def asymptotic_factor_def decay_factor_def
          power2_eq_square)
  have b: "get_adaptive_weight ?v2 (PyNum (1 / 2)) 1 = Inr 1 \<and>
           get_adaptive_weight_v2 ?v2 (PyNum (1 / 2)) 1 = Inr 1"
    using adaptive_weight_policy_composition [OF n, of ?v2 ?v2]
    by simp
  have c: "get_adaptive_weight \<lparr>use_asymptotic_guarantee = True, use_two_stage = True,
        stage_transition_point = 8 / 10, use_controlled_decay = False,
        decay_tau = 1 / 10\<rparr> (PyNum (1 / 2)) 1 = Inr 1"
    using adaptive_weight_policy_composition [OF n, of
      "\<lparr>use_asymptotic_guarantee = True, use_two_stage = True,
        stage_transition_point = 8 / 10, use_controlled_decay = False,
        decay_tau = 1 / 10\<rparr>" ?v2]
    by simp
  show ?thesis using a b c by simp
qed

section \<open>The transition-probability matrix\<close>

lemma sum_list_map_divide:
  fixes c :: real
  shows "sum_list (map (\<lambda>x. f x / c) xs) = sum_list (map f xs) / c"
  by (induction xs) (simp_all add: add_divide_distrib)

lemma sum_list_pos_real:
  fixes xs :: "real list"
  assumes "\<forall>x \<in> set xs. 0 \<le> x" and "y \<in> set xs" and "0 < y"
  shows "0 < sum_list xs"
proof -
  have "0 \<le> sum_list xs" using assms(1) by (simp add: sum_list_nonneg)
  moreover have "sum_list xs \<noteq> 0"
  proof
    assume "sum_list xs = 0"
    then have "\<forall>x \<in> set xs. x = 0"
      using assms(1) by (simp add: sum_list_nonneg_eq_0_iff)
    then show False using assms(2,3) by auto
  qed
  ultimately show ?thesis by simp
qed

lemma softmax_length [simp]: "length (softmax xs) = length xs"
  by (simp add: softmax_def)

lemma sum_exp_pos:
  assumes "xs \<noteq> []"
  shows "0 < sum_list (map exp (xs :: real list))"
proof -
  obtain y where y: "y \<in> set xs" using assms by (cases xs) auto
  have "\<forall>x \<in> set (map exp xs). (0::real) \<le> x" by auto
  moreover have "exp y \<in> set (map exp xs)" using y by simp
  moreover have "0 < exp y" by simp
  ultimately show ?thesis by (rule sum_list_pos_real)
qed

lemma softmax_sum:
  assumes "xs \<noteq> []"
  shows "sum_list (softmax xs) = 1"
proof -
  have "sum_list (softmax xs) = sum_list (map exp xs) / sum_list (map exp xs)"
    by (simp add: softmax_def sum_list_map_divide)
  then show ?thesis using sum_exp_pos [OF assms] by simp
qed

lemma softmax_pos:
  assumes "x \<in> set (softmax xs)"
  shows "0 < x"
proof -
  from assms obtain y where y: "y \<in> set xs" and x: "x = exp y / sum_list (map exp xs)"
    by (auto simp: softmax_def)
  have "xs \<noteq> []" using y by auto
  then have "0 < sum_list (map exp xs)" by (rule sum_exp_pos)
  then show ?thesis using x by simp
qed

lemma forward_rows:
  assumes "transition_matrix_forward m es = Inr P"
  shows "length P = vocab_size m \<and>
         (\<forall>row \<in> set P. length row = vocab_size m \<and> sum_list row = 1 \<and>
                          (\<forall>x \<in> set row. 0 < x))"
proof (cases "vocab_size m = 0")
  case True
  then show ?thesis using assms by (auto simp: transition_matrix_forward_def)
next
  case False
  then obtain temp where
    P: "P = map (\<lambda>i. softmax (map (\<lambda>j. similarity m i j / temp) [0..<vocab_size m]))
               [0..<vocab_size m]"
    using assms
    by (auto simp: transition_matrix_forward_def split: if_splits option.splits)
  have ne: "map (\<lambda>j. similarity m i j / temp) [0..<vocab_size m] \<noteq> []" for i
    using False by simp
  show ?thesis
    unfolding P using softmax_sum [OF ne] softmax_pos by auto
qed

lemma forward_returns:
  assumes "0 < hidden_dim m" and "effective_temperature m es = Some temp" and "temp \<noteq> 0"
  shows "\<exists>P. transition_matrix_forward m es = Inr P"
  using assms by (simp add: transition_matrix_forward_def)

lemma scatter_length [simp]: "length (scatter base idx vals) = length base"
proof -
  have "length (fold (\<lambda>(i, v) acc. acc[i := v]) ps base) = length base" for ps
    by (induction ps arbitrary: base) (auto split: prod.splits)
  then show ?thesis by (simp add: scatter_def)
qed

lemma scatter_nth:
  assumes "j < length base"
  shows "scatter base idx (map f idx) ! j = (if j \<in> set idx then f j else base ! j)"
  using assms
proof (induction idx arbitrary: base)
  case Nil
  then show ?case by (simp add: scatter_def)
next
  case (Cons i idx)
  have step: "scatter base (i # idx) (map f (i # idx)) = scatter (base[i := f i]) idx (map f idx)"
    by (simp add: scatter_def)
  have "j < length (base[i := f i])" using Cons.prems by simp
  from Cons.IH [OF this] show ?case
    unfolding step using Cons.prems by (auto simp: nth_list_update)
qed

lemma topk_idx_set: "set (topk_idx k row) \<subseteq> {0..<length row}"
proof -
  have "set (take k (sort_key (\<lambda>i. - (row ! i)) [0..<length row]))
          \<subseteq> set (sort_key (\<lambda>i. - (row ! i)) [0..<length row])"
    by (rule set_take_subset)
  then show ?thesis by (simp add: topk_idx_def)
qed

lemma topk_idx_nonempty:
  assumes "1 \<le> k" and "row \<noteq> []"
  shows "topk_idx k row \<noteq> []"
proof -
  have "length (topk_idx k row) = min k (length row)"
    by (simp add: topk_idx_def)
  then have "0 < length (topk_idx k row)" using assms by (cases row) auto
  then show ?thesis by auto
qed

lemma sparsify_row_length [simp]: "length (sparsify_row k row) = length row"
  by (simp add: sparsify_row_def Let_def)

lemma sparsify_row_nth:
  assumes "j < length row"
  shows "sparsify_row k row ! j = (if j \<in> set (topk_idx k row) then row ! j else 0)"
  using assms by (simp add: sparsify_row_def Let_def scatter_nth)

lemma sparsify_row_sum_pos:
  assumes "1 \<le> k" and "row \<noteq> []" and "\<forall>x \<in> set row. 0 < x"
  shows "0 < sum_list (sparsify_row k row)"
proof -
  obtain i where i: "i \<in> set (topk_idx k row)"
    using topk_idx_nonempty [OF assms(1,2)] by (cases "topk_idx k row") auto
  then have il: "i < length row" using topk_idx_set [of k row] by auto
  have nonneg: "\<forall>x \<in> set (sparsify_row k row). 0 \<le> x"
  proof
    fix x assume "x \<in> set (sparsify_row k row)"
    then obtain j where j: "j < length row" and x: "x = sparsify_row k row ! j"
      by (auto simp: in_set_conv_nth)
    have "0 < row ! j" using assms(3) j by simp
    then show "0 \<le> x" using x j by (simp add: sparsify_row_nth)
  qed
  have "sparsify_row k row ! i = row ! i" using i il by (simp add: sparsify_row_nth)
  moreover have "0 < row ! i" using assms(3) il by simp
  moreover have "sparsify_row k row ! i \<in> set (sparsify_row k row)" using il by simp
  ultimately show ?thesis using nonneg sum_list_pos_real by metis
qed

lemma sparse_rows:
  assumes "get_sparse_transitions m k = Inr S"
  shows "length S = vocab_size m \<and>
         (\<forall>row \<in> set S. length row = vocab_size m \<and> sum_list row = 1)"
proof -
  from assms obtain P where P: "transition_matrix_forward m None = Inr P"
    and S: "S = map (\<lambda>row. map (\<lambda>x. x / sum_list row) row) (map (sparsify_row k) P)"
    and nz: "\<forall>row \<in> set (map (sparsify_row k) P). sum_list row \<noteq> 0"
    by (auto simp: get_sparse_transitions_def err_bind_eq_Inr Let_def split: if_splits)
  have len: "length P = vocab_size m" "\<forall>row \<in> set P. length row = vocab_size m"
    using forward_rows [OF P] by auto
  have "sum_list (map (\<lambda>x. x / sum_list r) r) = 1" if "sum_list r \<noteq> 0" for r :: "real list"
    using that sum_list_map_divide [of "\<lambda>x. x" "sum_list r" r] by simp
  then show ?thesis using nz len unfolding S by auto
qed

lemma sparse_returns:
  assumes "0 < hidden_dim m" and "temperature m \<noteq> 0" and "1 \<le> k" and "k \<le> vocab_size m"
  shows "\<exists>S. get_sparse_transitions m k = Inr S"
proof -
  have "effective_temperature m None = Some (temperature m)"
    by (simp add: effective_temperature_def)
  from forward_returns [OF assms(1) this assms(2)]
  obtain P where P: "transition_matrix_forward m None = Inr P" by blast
  have rows: "\<forall>row \<in> set P. length row = vocab_size m \<and> (\<forall>x \<in> set row. 0 < x)"
    using forward_rows [OF P] by auto
  have "sum_list (sparsify_row k row) \<noteq> 0" if "row \<in> set P" for row
  proof -
    have "row \<noteq> []" using rows that assms(3,4) by auto
    moreover have "\<forall>x \<in> set row. 0 < x" using rows that by auto
    ultimately have "0 < sum_list (sparsify_row k row)"
      using assms(3) by (intro sparsify_row_sum_pos)
    then show ?thesis by simp
  qed
  then show ?thesis
    using P assms(4) by (auto simp: get_sparse_transitions_def Let_def)
qed

text \<open>
  Claim C2, as stated, fails: a temperature of zero is a parameter setting, and there
  the division of the similarity logits by the temperature leaves no finite matrix, dense
  or sparse.
\<close>

theorem transition_rows_counterexample:
  "transition_matrix_forward \<lparr>vocab_size = 2, hidden_dim = 1, token_embeddings = (\<lambda>_ _. 1),
        temperature = 0, self_transition_bias = 0\<rparr> None = Inl NonFinite \<and>
   get_sparse_transitions \<lparr>vocab_size = 2, hidden_dim = 1, token_embeddings = (\<lambda>_ _. 1),
        temperature = 0, self_transition_bias = 0\<rparr> 1 = Inl NonFinite"
  by (simp add: transition_matrix_forward_def get_sparse_transitions_def
        effective_temperature_def)

text \<open>
  Claim C2, amended. For every parameter setting with a positive embedding dimension and
  a non-zero effective temperature (the temperature itself without entropy scores, and
  \<open>temperature * (1 + mean)\<close> for a non-empty entropy-score input), \<open>forward\<close> returns a
  \<open>vocab_size \<times> vocab_size\<close> matrix whose rows each sum to 1; and for a positive embedding
  dimension, a non-zero temperature and \<open>1 \<le> k \<le> vocab_size\<close>,
  \<open>get_sparse_transitions\<close> returns such a matrix as well.
\<close>

theorem transition_rows_sum_to_one:
  "(0 < hidden_dim m \<and> effective_temperature m es = Some temp \<and> temp \<noteq> 0 \<longrightarrow>
      (\<exists>P. transition_matrix_forward m es = Inr P \<and> length P = vocab_size m \<and>
           (\<forall>row \<in> set P. length row = vocab_size m \<and> sum_list row = 1))) \<and>
   (0 < hidden_dim m \<and> temperature m \<noteq> 0 \<and> 1 \<le> k \<and> k \<le> vocab_size m \<longrightarrow>
      (\<exists>S. get_sparse_transitions m k = Inr S \<and> length S = vocab_size m \<and>
           (\<forall>row \<in> set S. length row = vocab_size m \<and> sum_list row = 1)))"
proof (intro conjI impI)
  assume "0 < hidden_dim m \<and> effective_temperature m es = Some temp \<and> temp \<noteq> 0"
  then obtain P where P: "transition_matrix_forward m es = Inr P"
    using forward_returns by blast
  from forward_rows [OF P] P
  show "\<exists>P. transition_matrix_forward m es = Inr P \<and> length P = vocab_size m \<and>
           (\<forall>row \<in> set P. length row = vocab_size m \<and> sum_list row = 1)"
    by blast
next
  assume "0 < hidden_dim m \<and> temperature m \<noteq> 0 \<and> 1 \<le> k \<and> k \<le> vocab_size m"
  then obtain S where S: "get_sparse_transitions m k = Inr S"
    using sparse_returns by blast
  from sparse_rows [OF S] S
  show "\<exists>S. get_sparse_transitions m k = Inr S \<and> length S = vocab_size m \<and>
           (\<forall>row \<in> set S. length row = vocab_size m \<and> sum_list row = 1)"
    by blast
qed

theorem transition_rows_sum_to_one_witness:
  "(\<exists>P. transition_matrix_forward \<lparr>vocab_size = 2, hidden_dim = 1,
          token_embeddings = (\<lambda>_ _. 1), temperature = 1, self_transition_bias = 0\<rparr>
          (Some [[1 / 2]]) = Inr P \<and> length P = 2 \<and>
        (\<forall>row \<in> set P. length row = 2 \<and> sum_list row = 1)) \<and>
   (\<exists>S. get_sparse_transitions \<lparr>vocab_size = 2, hidden_dim = 1,
          token_embeddings = (\<lambda>_ _. 1), temperature = 1, self_transition_bias = 0\<rparr> 1
          = Inr S \<and> length S = 2 \<and>
        (\<forall>row \<in> set S. length row = 2 \<and> sum_list row = 1))"
  using transition_rows_sum_to_one [of
      "\<lparr>vocab_size = 2, hidden_dim = 1, token_embeddings = (\<lambda>_ _. 1), temperature = 1,
        self_transition_bias = 0\<rparr>" "Some [[1 / 2]]" "3 / 2" 1]
  by (simp add: effective_temperature_def mean_all_def)

section \<open>The rate matrix is a generator\<close>

lemma masked_fill_eye_length [simp]: "length (masked_fill_eye M) = length M"
  by (simp add: masked_fill_eye_def)

lemma masked_fill_eye_nth [simp]: "i < length M \<Longrightarrow> masked_fill_eye M ! i = (M ! i)[i := 0]"
  by (simp add: masked_fill_eye_def)

lemma minus_on_diagonal_length [simp]: "length (minus_on_diagonal M off) = length M"
  by (simp add: minus_on_diagonal_def)

lemma minus_on_diagonal_nth:
  "i < length M \<Longrightarrow>
     minus_on_diagonal M off ! i =
       map (\<lambda>j. M ! i ! j - off ! i * (if i = j then 1 else 0)) [0..<length (M ! i)]"
  by (simp add: minus_on_diagonal_def)

lemma sum_list_delta:
  fixes c :: real
  assumes "i < n"
  shows "sum_list (map (\<lambda>j. c * (if i = j then 1 else 0)) [0..<n]) = c"
proof -
  have "(\<lambda>j. c * (if i = j then 1 else 0)) = (\<lambda>j. if j = i then c else 0)" by auto
  then have "sum_list (map (\<lambda>j. c * (if i = j then 1 else 0)) [0..<n])
               = (\<Sum>j\<in>{0..<n}. if j = i then c else 0)"
    by (simp add: interv_sum_list_conv_sum_set_nat)
  also have "\<dots> = c" using assms by simp
  finally show ?thesis .
qed

lemma generator_rowsI:
  assumes "length Q = V" and "\<And>i. i < V \<Longrightarrow> length (Q ! i) = V \<and> sum_list (Q ! i) = 0"
  shows "generator_rows V Q"
proof -
  have "Q ! i ! i = - sum_list ((Q ! i)[i := 0])" if "i < V" for i
  proof -
    have "i < length (Q ! i)" and "sum_list (Q ! i) = 0" using assms(2) [OF that] that by simp_all
    then show ?thesis by (simp add: sum_list_update_real)
  qed
  then show ?thesis using assms by (simp add: generator_rows_def)
qed

lemma diagonal_fix_generator:
  assumes "length M = V" and "\<forall>i<V. length (M ! i) = V"
  shows "generator_rows V (minus_on_diagonal (masked_fill_eye M)
                             (map sum_list (masked_fill_eye M)))"
proof (rule generator_rowsI)
  show "length (minus_on_diagonal (masked_fill_eye M) (map sum_list (masked_fill_eye M))) = V"
    using assms(1) by simp
next
  fix i assume i: "i < V"
  let ?K = "masked_fill_eye M"
  let ?row = "?K ! i"
  have len: "length ?row = V" using i assms by simp
  have off: "map sum_list ?K ! i = sum_list ?row" using i assms(1) by simp
  have row: "minus_on_diagonal ?K (map sum_list ?K) ! i =
               map (\<lambda>j. ?row ! j - sum_list ?row * (if i = j then 1 else 0)) [0..<V]"
    using i assms(1) len off by (simp add: minus_on_diagonal_nth)
  have "sum_list (map (\<lambda>j. ?row ! j - sum_list ?row * (if i = j then 1 else 0)) [0..<V])
          = sum_list (map (\<lambda>j. ?row ! j) [0..<V])
            - sum_list (map (\<lambda>j. sum_list ?row * (if i = j then 1 else 0)) [0..<V])"
    by (rule sum_list_subtractf)
  also have "map (\<lambda>j. ?row ! j) [0..<V] = ?row"
    using len map_nth [of ?row] by simp
  also have "sum_list (map (\<lambda>j. sum_list ?row * (if i = j then 1 else 0)) [0..<V])
               = sum_list ?row"
    using i by (rule sum_list_delta)
  finally have "sum_list (minus_on_diagonal ?K (map sum_list ?K) ! i) = 0"
    unfolding row by simp
  moreover have "length (minus_on_diagonal ?K (map sum_list ?K) ! i) = V"
    unfolding row by simp
  ultimately show "length (minus_on_diagonal ?K (map sum_list ?K) ! i) = V \<and>
                   sum_list (minus_on_diagonal ?K (map sum_list ?K) ! i) = 0"
    by simp
qed

lemma rate_position_generator:
  assumes "length T = V" and "\<forall>row \<in> set T. length row = V"
  shows "generator_rows V (rate_position T s e)"
proof -
  let ?M = "map (map (\<lambda>p. p * s * e)) T"
  have "length ?M = V" using assms(1) by simp
  moreover have "\<forall>i<V. length (?M ! i) = V" using assms by simp
  ultimately show ?thesis
    unfolding rate_position_def Let_def by (rule diagonal_fix_generator)
qed

lemma uniform_rate_generator: "generator_rows V (uniform_rate_position V)"
proof -
  let ?M = "replicate V (replicate V (1 / real V))"
  have "length ?M = V" by simp
  moreover have "\<forall>i<V. length (?M ! i) = V" by simp
  ultimately show ?thesis
    unfolding uniform_rate_position_def Let_def by (rule diagonal_fix_generator)
qed

lemma blend_sum:
  fixes w :: real
  assumes "length xs = length ys"
  shows "sum_list (map2 (\<lambda>a u. w * a + (1 - w) * u) xs ys)
           = w * sum_list xs + (1 - w) * sum_list ys"
  using assms by (induction xs ys rule: list_induct2) (simp_all add: algebra_simps)

lemma blend_generator:
  assumes "generator_rows V A" and "generator_rows V U"
  shows "generator_rows V (map2 (map2 (\<lambda>a u. w * a + (1 - w) * u)) A U)"
proof (rule generator_rowsI)
  show "length (map2 (map2 (\<lambda>a u. w * a + (1 - w) * u)) A U) = V"
    using assms by (simp add: generator_rows_def)
next
  fix i assume i: "i < V"
  have A: "length A = V" "length (A ! i) = V" "sum_list (A ! i) = 0"
    using assms(1) i by (simp_all add: generator_rows_def)
  have U: "length U = V" "length (U ! i) = V" "sum_list (U ! i) = 0"
    using assms(2) i by (simp_all add: generator_rows_def)
  have row: "map2 (map2 (\<lambda>a u. w * a + (1 - w) * u)) A U ! i
               = map2 (\<lambda>a u. w * a + (1 - w) * u) (A ! i) (U ! i)"
    using i A(1) U(1) by simp
  have "sum_list (map2 (\<lambda>a u. w * a + (1 - w) * u) (A ! i) (U ! i)) = 0"
    using blend_sum [of "A ! i" "U ! i" w] A U by simp
  then show "length (map2 (map2 (\<lambda>a u. w * a + (1 - w) * u)) A U ! i) = V \<and>
             sum_list (map2 (map2 (\<lambda>a u. w * a + (1 - w) * u)) A U ! i) = 0"
    unfolding row using A U by simp
qed

lemma transition_matrix_square:
  assumes "(case sparsity_k g of
              Some k \<Rightarrow> get_sparse_transitions (transition_matrix g) k
            | None \<Rightarrow> transition_matrix_forward (transition_matrix g) (Some es)) = Inr T"
  shows "length T = vocab_size (transition_matrix g) \<and>
         (\<forall>row \<in> set T. length row = vocab_size (transition_matrix g))"
proof (cases "sparsity_k g")
  case None
  then show ?thesis using assms forward_rows by fastforce
next
  case (Some k)
  then show ?thesis using assms sparse_rows by fastforce
qed

lemma adaptive_rate_generator:
  assumes "adaptive_rate g x_t t = Inr R"
  shows "\<forall>row \<in> set R. \<forall>Q \<in> set row. generator_rows (dim g) Q"
proof -
  from assms obtain es T where
    T: "(case sparsity_k g of
           Some k \<Rightarrow> get_sparse_transitions (transition_matrix g) k
         | None \<Rightarrow> transition_matrix_forward (transition_matrix g) (Some es)) = Inr T"
    and V: "vocab_size (transition_matrix g) = dim g"
    and R: "R = map (map (\<lambda>e. rate_position T (rate_scale g) (1.0 + entropy_scale g * e))) es"
    by (auto simp: adaptive_rate_def err_bind_eq_Inr split: if_splits)
  have sq: "length T = dim g" "\<forall>row \<in> set T. length row = dim g"
    using transition_matrix_square [OF T] V by simp_all
  show ?thesis
    unfolding R using rate_position_generator [OF sq] by auto
qed

lemma adaptive_rate_returns:
  assumes "rate_defined g x_t"
  shows "\<exists>R. adaptive_rate g x_t t = Inr R"
proof -
  have es: "entropy_scores_of g x_t = Inr (entropy_estimator g x_t)"
    using assms by (auto simp: rate_defined_def entropy_scores_of_def not_less)
  have V: "vocab_size (transition_matrix g) = dim g"
    and D: "0 < hidden_dim (transition_matrix g)"
    using assms by (simp_all add: rate_defined_def)
  have "\<exists>T. (case sparsity_k g of
              Some k \<Rightarrow> get_sparse_transitions (transition_matrix g) k
            | None \<Rightarrow> transition_matrix_forward (transition_matrix g)
                        (Some (entropy_estimator g x_t))) = Inr T"
  proof (cases "sparsity_k g")
    case None
    then have "temperature_ok (transition_matrix g) (Some (entropy_estimator g x_t))"
      using assms by (simp add: rate_defined_def)
    then obtain temp where
      "effective_temperature (transition_matrix g) (Some (entropy_estimator g x_t)) = Some temp"
      "temp \<noteq> 0"
      by (auto simp: temperature_ok_def split: option.splits)
    from forward_returns [OF D this] show ?thesis using None by simp
  next
    case (Some k)
    then have "temperature (transition_matrix g) \<noteq> 0" "1 \<le> k" "k \<le> vocab_size (transition_matrix g)"
      using assms V by (simp_all add: rate_defined_def)
    from sparse_returns [OF D this] show ?thesis using Some by simp
  qed
  then show ?thesis using es V by (auto simp: adaptive_rate_def)
qed

lemma enhanced_adaptive_rate_generator:
  assumes "enhanced_adaptive_rate g c x_t t max_t = Inr R"
  shows "\<forall>row \<in> set R. \<forall>Q \<in> set row. generator_rows (dim g) Q"
proof -
  from assms obtain w where w: "get_adaptive_weight c t max_t = Inr w"
    and rest: "(if w = 0 then Inr (map (map (\<lambda>_. uniform_rate_position (dim g))) x_t)
                else err_bind (adaptive_rate g x_t t) (\<lambda>rate_matrix.
                  if w < 1 then
                    Inr (map (map (\<lambda>Q. map2 (map2 (\<lambda>a u. w * a + (1 - w) * u))
                                         Q (uniform_rate_position (dim g)))) rate_matrix)
                  else Inr rate_matrix)) = Inr R"
    by (auto simp: enhanced_adaptive_rate_def err_bind_eq_Inr)
  show ?thesis
  proof (cases "w = 0")
    case True
    then have "R = map (map (\<lambda>_. uniform_rate_position (dim g))) x_t" using rest by simp
    then show ?thesis using uniform_rate_generator by auto
  next
    case False
    then obtain B where B: "adaptive_rate g x_t t = Inr B"
      and R: "(if w < 1 then
                 Inr (map (map (\<lambda>Q. map2 (map2 (\<lambda>a u. w * a + (1 - w) * u))
                                     Q (uniform_rate_position (dim g)))) B)
               else Inr B) = (Inr R :: error + real list list list list)"
      using rest by (auto simp: err_bind_eq_Inr)
    have base: "\<forall>row \<in> set B. \<forall>Q \<in> set row. generator_rows (dim g) Q"
      using adaptive_rate_generator [OF B] .
    show ?thesis
    proof (cases "w < 1")
      case True
      then have "R = map (map (\<lambda>Q. map2 (map2 (\<lambda>a u. w * a + (1 - w) * u))
                                     Q (uniform_rate_position (dim g)))) B"
        using R by simp
      then show ?thesis
        using base blend_generator [OF _ uniform_rate_generator] by auto
    next
      case False
      then have "R = B" using R by simp
      then show ?thesis using base by simp
    qed
  qed
qed

lemma enhanced_adaptive_rate_returns:
  assumes "rate_defined g x_t" and "get_adaptive_weight c t max_t = Inr w"
  shows "\<exists>R. enhanced_adaptive_rate g c x_t t max_t = Inr R"
proof -
  obtain B where "adaptive_rate g x_t t = Inr B"
    using adaptive_rate_returns [OF assms(1)] by blast
  then show ?thesis using assms(2) by (simp add: enhanced_adaptive_rate_def)
qed

lemma same_shape_map_map: "same_shape (map (map f) a) a"
  by (simp add: same_shape_def)

lemma same_shape_trans:
  assumes "same_shape a b" and "same_shape b c"
  shows "same_shape a c"
  using assms unfolding same_shape_def by simp

lemma adaptive_rate_shape:
  assumes "adaptive_rate g x_t t = Inr R"
  shows "same_shape R (entropy_estimator g x_t)"
proof -
  from assms obtain es f where es: "entropy_scores_of g x_t = Inr es"
    and R: "R = map (map f) es"
    by (auto simp: adaptive_rate_def err_bind_eq_Inr split: if_splits)
  have "es = entropy_estimator g x_t"
    using es by (simp add: entropy_scores_of_def split: if_splits)
  then show ?thesis unfolding R by (simp add: same_shape_map_map)
qed

lemma enhanced_adaptive_rate_shape:
  assumes "enhanced_adaptive_rate g c x_t t max_t = Inr R"
    and "same_shape (entropy_estimator g x_t) x_t"
  shows "same_shape R x_t"
proof -
  from assms(1) obtain w where w: "get_adaptive_weight c t max_t = Inr w"
    and rest: "(if w = 0 then Inr (map (map (\<lambda>_. uniform_rate_position (dim g))) x_t)
                else err_bind (adaptive_rate g x_t t) (\<lambda>rate_matrix.
                  if w < 1 then
                    Inr (map (map (\<lambda>Q. map2 (map2 (\<lambda>a u. w * a + (1 - w) * u))
                                         Q (uniform_rate_position (dim g)))) rate_matrix)
                  else Inr rate_matrix)) = Inr R"
    by (auto simp: enhanced_adaptive_rate_def err_bind_eq_Inr)
  show ?thesis
  proof (cases "w = 0")
    case True
    then have "R = map (map (\<lambda>_. uniform_rate_position (dim g))) x_t" using rest by simp
    then show ?thesis by (simp add: same_shape_map_map)
  next
    case False
    then obtain B where B: "adaptive_rate g x_t t = Inr B"
      and R: "(if w < 1 then
                 Inr (map (map (\<lambda>Q. map2 (map2 (\<lambda>a u. w * a + (1 - w) * u))
                                     Q (uniform_rate_position (dim g)))) B)
               else Inr B) = (Inr R :: error + real list list list list)"
      using rest by (auto simp: err_bind_eq_Inr)
    have B': "same_shape B x_t"
      using adaptive_rate_shape [OF B] assms(2) by (rule same_shape_trans)
    show ?thesis
    proof (cases "w < 1")
      case True
      then have "R = map (map (\<lambda>Q. map2 (map2 (\<lambda>a u. w * a + (1 - w) * u))
                                     Q (uniform_rate_position (dim g)))) B"
        using R by simp
      then have "same_shape R B" by (simp add: same_shape_map_map)
      then show ?thesis using B' by (rule same_shape_trans)
    next
      case False
      then have "R = B" using R by simp
      then show ?thesis using B' by simp
    qed
  qed
qed

lemma generator_at_position:
  assumes "\<forall>row \<in> set R. \<forall>Q \<in> set row. generator_rows V Q" and "same_shape R x"
    and "b < length x" and "l < length (x ! b)"
  shows "generator_rows V (R ! b ! l)"
proof -
  have b: "b < length R" and l: "l < length (R ! b)"
    using assms(2-4) by (simp_all add: same_shape_def)
  have "R ! b \<in> set R" using b by simp
  moreover have "R ! b ! l \<in> set (R ! b)" using l by simp
  ultimately show ?thesis using assms(1) by blast
qed

lemma enhanced_adaptive_rate_uniform:
  assumes "get_adaptive_weight c t max_t = Inr 0"
  shows "enhanced_adaptive_rate g c x_t t max_t
           = Inr (map (map (\<lambda>_. uniform_rate_position (dim g))) x_t)"
  using assms by (simp add: enhanced_adaptive_rate_def)

lemma rate_position_offdiag:
  assumes "length T = V" and "\<forall>row \<in> set T. length row = V"
    and "i < V" and "j < V" and "i \<noteq> j"
  shows "rate_position T s e ! i ! j = T ! i ! j * s * e"
proof -
  let ?M = "map (map (\<lambda>p. p * s * e)) T"
  let ?K = "masked_fill_eye ?M"
  have row: "length (T ! i) = V" using assms(1-3) by simp
  have Ki: "?K ! i = (map (\<lambda>p. p * s * e) (T ! i))[i := 0]"
    using assms(1,3) by simp
  have len: "length (?K ! i) = V" unfolding Ki using row by simp
  have "minus_on_diagonal ?K (map sum_list ?K) ! i ! j
          = ?K ! i ! j - map sum_list ?K ! i * (if i = j then 1 else 0)"
    using assms(1,3,4) len by (simp add: minus_on_diagonal_nth)
  also have "\<dots> = ?K ! i ! j" using assms(5) by simp
  also have "\<dots> = T ! i ! j * s * e"
    unfolding Ki using assms(4,5) row by simp
  finally show ?thesis by (simp add: rate_position_def Let_def)
qed

lemma adaptive_rate_entries:
  assumes "adaptive_rate g x_t t = Inr B"
  shows "\<exists>T. (case sparsity_k g of
                Some k \<Rightarrow> get_sparse_transitions (transition_matrix g) k
              | None \<Rightarrow> transition_matrix_forward (transition_matrix g)
                          (Some (entropy_estimator g x_t))) = Inr T \<and>
             length T = dim g \<and> (\<forall>row \<in> set T. length row = dim g) \<and>
             B = map (map (\<lambda>e. rate_position T (rate_scale g) (1.0 + entropy_scale g * e)))
                   (entropy_estimator g x_t)"
proof -
  from assms obtain es T where es: "entropy_scores_of g x_t = Inr es" and
    T: "(case sparsity_k g of
           Some k \<Rightarrow> get_sparse_transitions (transition_matrix g) k
         | None \<Rightarrow> transition_matrix_forward (transition_matrix g) (Some es)) = Inr T"
    and V: "vocab_size (transition_matrix g) = dim g"
    and R: "B = map (map (\<lambda>e. rate_position T (rate_scale g) (1.0 + entropy_scale g * e))) es"
    by (auto simp: adaptive_rate_def err_bind_eq_Inr split: if_splits)
  have e: "es = entropy_estimator g x_t"
    using es by (simp add: entropy_scores_of_def split: if_splits)
  have sq: "length T = dim g" "\<forall>row \<in> set T. length row = dim g"
    using transition_matrix_square [OF T] V by simp_all
  show ?thesis using T R sq unfolding e by blast
qed

lemma adaptive_rate_offdiag:
  assumes "adaptive_rate g x_t t = Inr B"
    and "b < length (entropy_estimator g x_t)" and "l < length (entropy_estimator g x_t ! b)"
    and "i < dim g" and "j < dim g" and "i \<noteq> j"
  shows "\<exists>T. (case sparsity_k g of
                Some k \<Rightarrow> get_sparse_transitions (transition_matrix g) k
              | None \<Rightarrow> transition_matrix_forward (transition_matrix g)
                          (Some (entropy_estimator g x_t))) = Inr T \<and>
             B ! b ! l ! i ! j
               = T ! i ! j * rate_scale g
                 * (1.0 + entropy_scale g * (entropy_estimator g x_t ! b ! l))"
proof -
  from adaptive_rate_entries [OF assms(1)] obtain T where
    T: "(case sparsity_k g of
           Some k \<Rightarrow> get_sparse_transitions (transition_matrix g) k
         | None \<Rightarrow> transition_matrix_forward (transition_matrix g)
                     (Some (entropy_estimator g x_t))) = Inr T"
    and sq: "length T = dim g" "\<forall>row \<in> set T. length row = dim g"
    and B: "B = map (map (\<lambda>e. rate_position T (rate_scale g) (1.0 + entropy_scale g * e)))
                  (entropy_estimator g x_t)"
    by blast
  have "B ! b ! l = rate_position T (rate_scale g)
                      (1.0 + entropy_scale g * (entropy_estimator g x_t ! b ! l))"
    unfolding B using assms(2,3) by simp
  then have "B ! b ! l ! i ! j
               = T ! i ! j * rate_scale g
                 * (1.0 + entropy_scale g * (entropy_estimator g x_t ! b ! l))"
    using rate_position_offdiag [OF sq assms(4-6)] by simp
  then show ?thesis using T by blast
qed

lemma enhanced_adaptive_rate_blend:
  assumes "enhanced_adaptive_rate g c x_t t max_t = Inr E"
    and "get_adaptive_weight c t max_t = Inr w" and "w \<noteq> 0"
  shows "\<exists>B. adaptive_rate g x_t t = Inr B \<and>
             E = (if w < 1 then
                    map (map (\<lambda>Q. map2 (map2 (\<lambda>a u. w * a + (1 - w) * u))
                                    Q (uniform_rate_position (dim g)))) B
                  else B)"
proof -
  from assms have "err_bind (adaptive_rate g x_t t) (\<lambda>rate_matrix.
                  if w < 1 then
                    Inr (map (map (\<lambda>Q. map2 (map2 (\<lambda>a u. w * a + (1 - w) * u))
                                         Q (uniform_rate_position (dim g)))) rate_matrix)
                  else Inr rate_matrix) = Inr E"
    by (simp add: enhanced_adaptive_rate_def)
  then obtain B where B: "adaptive_rate g x_t t = Inr B"
    and R: "(if w < 1 then
                 Inr (map (map (\<lambda>Q. map2 (map2 (\<lambda>a u. w * a + (1 - w) * u))
                                     Q (uniform_rate_position (dim g)))) B)
               else Inr B) = (Inr E :: error + real list list list list)"
    by (auto simp: err_bind_eq_Inr)
  have "E = (if w < 1 then
                    map (map (\<lambda>Q. map2 (map2 (\<lambda>a u. w * a + (1 - w) * u))
                                    Q (uniform_rate_position (dim g)))) B
                  else B)"
    using R by (cases "w < 1") simp_all
  then show ?thesis using B by blast
qed

text \<open>
  Claim C1, as stated, fails: on a graph whose transition matrix has temperature zero the
  rate tensor is built from a transition matrix that is not finite, so no row of it sums
  to 0, for tokens in the vocabulary and every time; the enhanced graph inherits this
  whenever its weight is not 0.
\<close>

theorem rate_matrix_counterexample:
  "adaptive_rate \<lparr>dim = 2, entropy_scale = 1, sparsity_k = None,
          entropy_estimator = (\<lambda>x. map (map (\<lambda>_. 1 / 2)) x),
          transition_matrix = \<lparr>vocab_size = 2, hidden_dim = 1,
             token_embeddings = (\<lambda>_ _. 1), temperature = 0, self_transition_bias = 0\<rparr>,
          rate_scale = 1, rate_bias = 0\<rparr> [[0, 1]] (PyNum (1 / 2)) = Inl NonFinite \<and>
   enhanced_adaptive_rate \<lparr>dim = 2, entropy_scale = 1, sparsity_k = None,
          entropy_estimator = (\<lambda>x. map (map (\<lambda>_. 1 / 2)) x),
          transition_matrix = \<lparr>vocab_size = 2, hidden_dim = 1,
             token_embeddings = (\<lambda>_ _. 1), temperature = 0, self_transition_bias = 0\<rparr>,
          rate_scale = 1, rate_bias = 0\<rparr>
        \<lparr>use_asymptotic_guarantee = True, use_two_stage = False,
          stage_transition_point = 8 / 10, use_controlled_decay = False,
          decay_tau = 1 / 10\<rparr> [[0, 1]] (PyNum (1 / 2)) 1 = Inl NonFinite"
proof -
  let ?g = "\<lparr>dim = 2, entropy_scale = 1, sparsity_k = None,
          entropy_estimator = (\<lambda>x. map (map (\<lambda>_. 1 / 2)) x),
          transition_matrix = \<lparr>vocab_size = 2, hidden_dim = 1,
             token_embeddings = (\<lambda>_ _. 1), temperature = 0, self_transition_bias = 0\<rparr>,
          rate_scale = 1 :: real, rate_bias = 0 :: real\<rparr>"
  let ?c = "\<lparr>use_asymptotic_guarantee = True, use_two_stage = False,
          stage_transition_point = 8 / 10, use_controlled_decay = False,
          decay_tau = 1 / 10 :: real\<rparr>"
  have a: "adaptive_rate ?g [[0, 1]] (PyNum (1 / 2)) = Inl NonFinite"
    by (simp add: adaptive_rate_def entropy_scores_of_def in_vocab_def
          transition_matrix_forward_def effective_temperature_def mean_all_def)
  have w: "get_adaptive_weight ?c (PyNum (1 / 2)) 1 = Inr (3 / 4)"
    by (simp add: get_adaptive_weight_def normalize_t_def py_div_def power2_eq_square)
  have "enhanced_adaptive_rate ?g ?c [[0, 1]] (PyNum (1 / 2)) 1 = Inl NonFinite"
    unfolding enhanced_adaptive_rate_def w a by simp
  then show ?thesis using a by simp
qed

text \<open>
  Claim C1, amended. On a graph whose transition matrix is finite (a positive embedding
  dimension, a non-zero effective temperature, and \<open>1 \<le> k \<le> V\<close> for the top-k matrix)
  and has the size of the graph, for every batch with tokens in the vocabulary, sequences
  of at most 1024 tokens and an estimator that answers in the shape of the batch, and for
  every time, \<open>AdaptiveUniform.adaptive_rate\<close> returns a tensor of the shape of the batch
  whose matrix at each position is a generator: square over the vocabulary, each row
  summing to 0, each diagonal entry equal to minus the sum of the other entries of its
  row; its entries off the diagonal are those of the transition matrix, times the rate
  scale and the entropy factor of the position. So does
  \<open>EnhancedAdaptiveUniform.adaptive_rate\<close> whenever its weight is defined: at a weight
  that is not 0 it returns the base rate, blended at each position with the uniform
  generator when the weight is below 1; in its pure-uniform branch, at weight 0, it
  returns the uniform generator at every position of the batch on every graph. Whatever
  tensor either construction returns consists of generators.
\<close>

theorem rate_matrix_rows_sum_to_zero:
  "(rate_defined g x_t \<and> same_shape (entropy_estimator g x_t) x_t \<longrightarrow>
      (\<exists>B T. adaptive_rate g x_t t = Inr B \<and> same_shape B x_t \<and>
           (case sparsity_k g of
              Some k \<Rightarrow> get_sparse_transitions (transition_matrix g) k
            | None \<Rightarrow> transition_matrix_forward (transition_matrix g)
                        (Some (entropy_estimator g x_t))) = Inr T \<and>
           (\<forall>b<length x_t. \<forall>l<length (x_t ! b).
               generator_rows (dim g) (B ! b ! l) \<and>
               (\<forall>i<dim g. \<forall>j<dim g. i \<noteq> j \<longrightarrow>
                   B ! b ! l ! i ! j
                     = T ! i ! j * rate_scale g
                       * (1.0 + entropy_scale g * (entropy_estimator g x_t ! b ! l)))))) \<and>
   (rate_defined g x_t \<and> same_shape (entropy_estimator g x_t) x_t \<and>
    get_adaptive_weight c t max_t = Inr w \<longrightarrow>
      (\<exists>E. enhanced_adaptive_rate g c x_t t max_t = Inr E \<and> same_shape E x_t \<and>
           (\<forall>b<length x_t. \<forall>l<length (x_t ! b). generator_rows (dim g) (E ! b ! l)) \<and>
           (w \<noteq> 0 \<longrightarrow>
              (\<exists>B. adaptive_rate g x_t t = Inr B \<and>
                 (\<forall>b<length x_t. \<forall>l<length (x_t ! b).
                    E ! b ! l =
                      (if w < 1 then
                         map2 (map2 (\<lambda>a u. w * a + (1 - w) * u))
                           (B ! b ! l) (uniform_rate_position (dim g))
                       else B ! b ! l)))))) \<and>
   (get_adaptive_weight c t max_t = Inr 0 \<longrightarrow>
      (\<exists>U. enhanced_adaptive_rate g c x_t t max_t = Inr U \<and> same_shape U x_t \<and>
           (\<forall>b<length x_t. \<forall>l<length (x_t ! b).
               U ! b ! l = uniform_rate_position (dim g) \<and>
               generator_rows (dim g) (U ! b ! l)))) \<and>
   (adaptive_rate g x_t t = Inr R \<longrightarrow>
      (\<forall>row \<in> set R. \<forall>Q \<in> set row. generator_rows (dim g) Q)) \<and>
   (enhanced_adaptive_rate g c x_t t max_t = Inr R' \<longrightarrow>
      (\<forall>row \<in> set R'. \<forall>Q \<in> set row. generator_rows (dim g) Q))"
proof (intro conjI impI)
  assume a: "rate_defined g x_t \<and> same_shape (entropy_estimator g x_t) x_t"
  then obtain B where B: "adaptive_rate g x_t t = Inr B"
    using adaptive_rate_returns by blast
  have se: "same_shape (entropy_estimator g x_t) x_t" using a by blast
  have sh: "same_shape B x_t"
    using adaptive_rate_shape [OF B] se by (rule same_shape_trans)
  from adaptive_rate_entries [OF B] obtain T where
    T: "(case sparsity_k g of
           Some k \<Rightarrow> get_sparse_transitions (transition_matrix g) k
         | None \<Rightarrow> transition_matrix_forward (transition_matrix g)
                     (Some (entropy_estimator g x_t))) = Inr T"
    by blast
  have gen: "generator_rows (dim g) (B ! b ! l)"
    if "b < length x_t" "l < length (x_t ! b)" for b l
    using adaptive_rate_generator [OF B] sh that by (rule generator_at_position)
  have off: "B ! b ! l ! i ! j
               = T ! i ! j * rate_scale g
                 * (1.0 + entropy_scale g * (entropy_estimator g x_t ! b ! l))"
    if "b < length x_t" "l < length (x_t ! b)" "i < dim g" "j < dim g" "i \<noteq> j"
    for b l i j
  proof -
    have b: "b < length (entropy_estimator g x_t)"
      and l: "l < length (entropy_estimator g x_t ! b)"
      using se that(1,2) by (simp_all add: same_shape_def)
    from adaptive_rate_offdiag [OF B b l that(3-5)] T show ?thesis by auto
  qed
  show "\<exists>B T. adaptive_rate g x_t t = Inr B \<and> same_shape B x_t \<and>
           (case sparsity_k g of
              Some k \<Rightarrow> get_sparse_transitions (transition_matrix g) k
            | None \<Rightarrow> transition_matrix_forward (transition_matrix g)
                        (Some (entropy_estimator g x_t))) = Inr T \<and>
           (\<forall>b<length x_t. \<forall>l<length (x_t ! b).
               generator_rows (dim g) (B ! b ! l) \<and>
               (\<forall>i<dim g. \<forall>j<dim g. i \<noteq> j \<longrightarrow>
                   B ! b ! l ! i ! j
                     = T ! i ! j * rate_scale g
                       * (1.0 + entropy_scale g * (entropy_estimator g x_t ! b ! l))))"
  proof (intro exI conjI allI impI)
    show "adaptive_rate g x_t t = Inr B" by (rule B)
    show "same_shape B x_t" by (rule sh)
    show "(case sparsity_k g of
              Some k \<Rightarrow> get_sparse_transitions (transition_matrix g) k
            | None \<Rightarrow> transition_matrix_forward (transition_matrix g)
                        (Some (entropy_estimator g x_t))) = Inr T" by (rule T)
  next
    fix b l assume "b < length x_t" "l < length (x_t ! b)"
    then show "generator_rows (dim g) (B ! b ! l)" by (rule gen)
  next
    fix b l i j
    assume "b < length x_t" "l < length (x_t ! b)" "i < dim g" "j < dim g" "i \<noteq> j"
    then show "B ! b ! l ! i ! j
                 = T ! i ! j * rate_scale g
                   * (1.0 + entropy_scale g * (entropy_estimator g x_t ! b ! l))"
      by (rule off)
  qed
next
  assume a: "rate_defined g x_t \<and> same_shape (entropy_estimator g x_t) x_t \<and>
             get_adaptive_weight c t max_t = Inr w"
  then obtain E where E: "enhanced_adaptive_rate g c x_t t max_t = Inr E"
    using enhanced_adaptive_rate_returns by blast
  have se: "same_shape (entropy_estimator g x_t) x_t"
    and w: "get_adaptive_weight c t max_t = Inr w" using a by blast+
  have sh: "same_shape E x_t"
    using E se by (rule enhanced_adaptive_rate_shape)
  have gen: "generator_rows (dim g) (E ! b ! l)"
    if "b < length x_t" "l < length (x_t ! b)" for b l
    using enhanced_adaptive_rate_generator [OF E] sh that by (rule generator_at_position)
  have blend: "\<exists>B. adaptive_rate g x_t t = Inr B \<and>
                 (\<forall>b<length x_t. \<forall>l<length (x_t ! b).
                    E ! b ! l =
                      (if w < 1 then
                         map2 (map2 (\<lambda>a u. w * a + (1 - w) * u))
                           (B ! b ! l) (uniform_rate_position (dim g))
                       else B ! b ! l))"
    if "w \<noteq> 0"
  proof -
    from enhanced_adaptive_rate_blend [OF E w that] obtain B where
      B: "adaptive_rate g x_t t = Inr B"
      and EB: "E = (if w < 1 then
                    map (map (\<lambda>Q. map2 (map2 (\<lambda>a u. w * a + (1 - w) * u))
                                    Q (uniform_rate_position (dim g)))) B
                  else B)"
      by blast
    have shB: "same_shape B x_t"
      using adaptive_rate_shape [OF B] se by (rule same_shape_trans)
    have "E ! b ! l =
            (if w < 1 then
               map2 (map2 (\<lambda>a u. w * a + (1 - w) * u))
                 (B ! b ! l) (uniform_rate_position (dim g))
             else B ! b ! l)"
      if "b < length x_t" "l < length (x_t ! b)" for b l
    proof -
      have "b < length B" "l < length (B ! b)"
        using shB that by (simp_all add: same_shape_def)
      then show ?thesis unfolding EB by simp
    qed
    then show ?thesis using B by blast
  qed
  show "\<exists>E. enhanced_adaptive_rate g c x_t t max_t = Inr E \<and> same_shape E x_t \<and>
           (\<forall>b<length x_t. \<forall>l<length (x_t ! b). generator_rows (dim g) (E ! b ! l)) \<and>
           (w \<noteq> 0 \<longrightarrow>
              (\<exists>B. adaptive_rate g x_t t = Inr B \<and>
                 (\<forall>b<length x_t. \<forall>l<length (x_t ! b).
                    E ! b ! l =
                      (if w < 1 then
                         map2 (map2 (\<lambda>a u. w * a + (1 - w) * u))
                           (B ! b ! l) (uniform_rate_position (dim g))
                       else B ! b ! l))))"
  proof (intro exI conjI)
    show "enhanced_adaptive_rate g c x_t t max_t = Inr E" by (rule E)
    show "same_shape E x_t" by (rule sh)
    show "\<forall>b<length x_t. \<forall>l<length (x_t ! b). generator_rows (dim g) (E ! b ! l)"
      using gen by blast
    show "w \<noteq> 0 \<longrightarrow>
              (\<exists>B. adaptive_rate g x_t t = Inr B \<and>
                 (\<forall>b<length x_t. \<forall>l<length (x_t ! b).
                    E ! b ! l =
                      (if w < 1 then
                         map2 (map2 (\<lambda>a u. w * a + (1 - w) * u))
                           (B ! b ! l) (uniform_rate_position (dim g))
                       else B ! b ! l)))"
      using blend by (rule impI)
  qed
next
  assume a: "get_adaptive_weight c t max_t = Inr 0"
  let ?U = "map (map (\<lambda>_. uniform_rate_position (dim g))) x_t"
  have U: "enhanced_adaptive_rate g c x_t t max_t = Inr ?U"
    using a by (rule enhanced_adaptive_rate_uniform)
  have sh: "same_shape ?U x_t" by (rule same_shape_map_map)
  have "?U ! b ! l = uniform_rate_position (dim g) \<and> generator_rows (dim g) (?U ! b ! l)"
    if "b < length x_t" "l < length (x_t ! b)" for b l
    using that uniform_rate_generator [of "dim g"] by simp
  then show "\<exists>U. enhanced_adaptive_rate g c x_t t max_t = Inr U \<and> same_shape U x_t \<and>
           (\<forall>b<length x_t. \<forall>l<length (x_t ! b).
               U ! b ! l = uniform_rate_position (dim g) \<and>
               generator_rows (dim g) (U ! b ! l))"
    using U sh by blast
next
  assume "adaptive_rate g x_t t = Inr R"
  then show "\<forall>row \<in> set R. \<forall>Q \<in> set row. generator_rows (dim g) Q"
    by (rule adaptive_rate_generator)
next
  assume "enhanced_adaptive_rate g c x_t t max_t = Inr R'"
  then show "\<forall>row \<in> set R'. \<forall>Q \<in> set row. generator_rows (dim g) Q"
    by (rule enhanced_adaptive_rate_generator)
qed

theorem rate_matrix_rows_sum_to_zero_witness:
  "(\<exists>B. adaptive_rate \<lparr>dim = 2, entropy_scale = 1, sparsity_k = None,
          entropy_estimator = (\<lambda>x. map (map (\<lambda>_. 1 / 2)) x),
          transition_matrix = \<lparr>vocab_size = 2, hidden_dim = 1,
             token_embeddings = (\<lambda>_ _. 1), temperature = 1, self_transition_bias = 0\<rparr>,
          rate_scale = 1, rate_bias = 0\<rparr> [[0, 1]] (PyNum (1 / 2)) = Inr B \<and>
        length B = 1 \<and> length (B ! 0) = 2 \<and>
        generator_rows 2 (B ! 0 ! 0) \<and> generator_rows 2 (B ! 0 ! 1)) \<and>
   (\<exists>E. enhanced_adaptive_rate \<lparr>dim = 2, entropy_scale = 1, sparsity_k = None,
          entropy_estimator = (\<lambda>x. map (map (\<lambda>_. 1 / 2)) x),
          transition_matrix = \<lparr>vocab_size = 2, hidden_dim = 1,
             token_embeddings = (\<lambda>_ _. 1), temperature = 1, self_transition_bias = 0\<rparr>,
          rate_scale = 1, rate_bias = 0\<rparr>
        \<lparr>use_asymptotic_guarantee = True, use_two_stage = False,
          stage_transition_point = 8 / 10, use_controlled_decay = True,
          decay_tau = 1 / 10\<rparr> [[0, 1]] (PyNum (1 / 2)) 1 = Inr E \<and>
        length E = 1 \<and> length (E ! 0) = 2 \<and>
        generator_rows 2 (E ! 0 ! 0) \<and> generator_rows 2 (E ! 0 ! 1)) \<and>
   (\<exists>U. enhanced_adaptive_rate \<lparr>dim = 2, entropy_scale = 1, sparsity_k = None,
          entropy_estimator = (\<lambda>x. map (map (\<lambda>_. 1 / 2)) x),
          transition_matrix = \<lparr>vocab_size = 2, hidden_dim = 1,
             token_embeddings = (\<lambda>_ _. 1), temperature = 1, self_transition_bias = 0\<rparr>,
          rate_scale = 1, rate_bias = 0\<rparr>
        \<lparr>use_asymptotic_guarantee = True, use_two_stage = False,
          stage_transition_point = 8 / 10, use_controlled_decay = True,
          decay_tau = 1 / 10\<rparr> [[0, 1]] (PyNum 1) 1 = Inr U \<and>
        length U = 1 \<and> length (U ! 0) = 2 \<and>
        U ! 0 ! 0 = uniform_rate_position 2 \<and> generator_rows 2 (U ! 0 ! 1))"
proof -
  let ?g = "\<lparr>dim = 2, entropy_scale = 1, sparsity_k = None,
          entropy_estimator = (\<lambda>x. map (map (\<lambda>_. 1 / 2)) x),
          transition_matrix = \<lparr>vocab_size = 2, hidden_dim = 1,
             token_embeddings = (\<lambda>_ _. 1), temperature = 1, self_transition_bias = 0\<rparr>,
          rate_scale = 1 :: real, rate_bias = 0 :: real\<rparr>"
  let ?c = "\<lparr>use_asymptotic_guarantee = True, use_two_stage = False,
          stage_transition_point = 8 / 10, use_controlled_decay = True,
          decay_tau = 1 / 10 :: real\<rparr>"
  let ?x = "[[0, 1 :: nat]]"
  let ?t = "PyNum (1 / 2)"
  have rd: "rate_defined ?g ?x \<and> same_shape (entropy_estimator ?g ?x) ?x"
    by (simp add: rate_defined_def in_vocab_def temperature_ok_def
          effective_temperature_def mean_all_def same_shape_def)
  have w: "get_adaptive_weight ?c ?t 1 = Inr (3 / 4 * exp (- 5))"
    by (simp add: get_adaptive_weight_def normalize_t_def py_div_def power2_eq_square)
  have w0: "get_adaptive_weight ?c (PyNum 1) 1 = Inr 0"
    by (simp add: get_adaptive_weight_def normalize_t_def py_div_def)
  have sh: "same_shape A ?x \<longleftrightarrow> length A = 1 \<and> length (A ! 0) = 2"
    for A :: "real list list list list"
    by (simp add: same_shape_def numeral_2_eq_2)
  have pos: "(\<forall>b<length ?x. \<forall>l<length (?x ! b). P b l) \<longleftrightarrow> P 0 0 \<and> P 0 1"
    for P :: "nat \<Rightarrow> nat \<Rightarrow> bool"
    by (auto simp: All_less_Suc numeral_2_eq_2)
  have rdw: "rate_defined ?g ?x \<and> same_shape (entropy_estimator ?g ?x) ?x \<and>
             get_adaptive_weight ?c ?t 1 = Inr (3 / 4 * exp (- 5))"
    using rd w by blast
  note inst = rate_matrix_rows_sum_to_zero [of ?g ?x ?t ?c 1 "3 / 4 * exp (- 5)" "[]" "[]"]
  note inst0 = rate_matrix_rows_sum_to_zero [of ?g ?x "PyNum 1" ?c 1 0 "[]" "[]"]
  from mp [OF inst [THEN conjunct1] rd]
  obtain B where B: "adaptive_rate ?g ?x ?t = Inr B" and sB: "same_shape B ?x"
    and gB: "\<forall>b<length ?x. \<forall>l<length (?x ! b). generator_rows (dim ?g) (B ! b ! l)"
    by (elim exE conjE) blast
  from mp [OF inst [THEN conjunct2, THEN conjunct1] rdw]
  obtain E where E: "enhanced_adaptive_rate ?g ?c ?x ?t 1 = Inr E"
    and sE: "same_shape E ?x"
    and gE: "\<forall>b<length ?x. \<forall>l<length (?x ! b). generator_rows (dim ?g) (E ! b ! l)"
    by (elim exE conjE) blast
  from mp [OF inst0 [THEN conjunct2, THEN conjunct2, THEN conjunct1] w0]
  obtain U where U: "enhanced_adaptive_rate ?g ?c ?x (PyNum 1) 1 = Inr U"
    and sU: "same_shape U ?x"
    and gU: "\<forall>b<length ?x. \<forall>l<length (?x ! b).
               U ! b ! l = uniform_rate_position (dim ?g) \<and>
               generator_rows (dim ?g) (U ! b ! l)"
    by (elim exE conjE) blast
  have a: "\<exists>B. adaptive_rate ?g ?x ?t = Inr B \<and> length B = 1 \<and> length (B ! 0) = 2 \<and>
        generator_rows 2 (B ! 0 ! 0) \<and> generator_rows 2 (B ! 0 ! 1)"
    using B sB gB unfolding sh pos by simp
  have b: "\<exists>E. enhanced_adaptive_rate ?g ?c ?x ?t 1 = Inr E \<and> length E = 1 \<and>
        length (E ! 0) = 2 \<and> generator_rows 2 (E ! 0 ! 0) \<and> generator_rows 2 (E ! 0 ! 1)"
    using E sE gE unfolding sh pos by simp
  have c: "\<exists>U. enhanced_adaptive_rate ?g ?c ?x (PyNum 1) 1 = Inr U \<and> length U = 1 \<and>
        length (U ! 0) = 2 \<and> U ! 0 ! 0 = uniform_rate_position 2 \<and>
        generator_rows 2 (U ! 0 ! 1)"
    using U sU gU uniform_rate_generator [of 2] unfolding sh pos by simp
  show ?thesis using a b c by (intro conjI)
qed

section \<open>The score-entropy loss: where it is finite\<close>


























section \<open>The chi-squared statistic of a uniform and of a concentrated batch\<close>

lemma count_list_concat_replicate:
  "count_list (concat (replicate n r)) i = n * count_list r i"
  by (induction n) simp_all

lemma length_concat_replicate:
  "length (concat (replicate n r)) = n * length r"
  by (induction n) simp_all

lemma upt_4: "[0..<4] = [0, 1, 2, 3]"
  by (simp add: upt_rec)

text \<open>Ten sequences over a vocabulary of four tokens in which every token occurs once:
  the counts are \<open>[10, 10, 10, 10]\<close>, the statistic is 0, and the p-value is
  \<open>1 - cdf(0, 3)\<close>.\<close>

lemma observed_counts_uniform:
  "observed_counts 4 (replicate 10 [0, 1, 2, 3]) = [10, 10, 10, 10]"
  by (simp add: observed_counts_def count_list_concat_replicate upt_4)

lemma chi2_stat_uniform: "chi2_stat 4 (replicate 10 [0, 1, 2, 3]) = Inr 0"
  unfolding chi2_stat_def observed_counts_uniform length_concat_replicate
  by (simp add: py_div_def Let_def upt_4)

lemma chi_squared_test_uniform:
  "chi_squared_test cdf 4 (replicate 10 [0, 1, 2, 3]) = Inr (1 - cdf 0 3)"
  unfolding chi_squared_test_def chi2_stat_uniform by simp

text \<open>Ten sequences of four tokens that are all the token 0: the counts are
  \<open>[40, 0, 0, 0]\<close>, the statistic is 120, and the p-value is \<open>1 - cdf(120, 3)\<close>.\<close>

lemma observed_counts_concentrated:
  "observed_counts 4 (replicate 10 [0, 0, 0, 0]) = [40, 0, 0, 0]"
  by (simp add: observed_counts_def count_list_concat_replicate upt_4)

lemma chi2_stat_concentrated: "chi2_stat 4 (replicate 10 [0, 0, 0, 0]) = Inr 120"
  unfolding chi2_stat_def observed_counts_concentrated length_concat_replicate
  by (simp add: py_div_def Let_def upt_4)

lemma chi_squared_test_concentrated:
  "chi_squared_test cdf 4 (replicate 10 [0, 0, 0, 0]) = Inr (1 - cdf 120 3)"
  unfolding chi_squared_test_def chi2_stat_concentrated by simp

end
